theory Spec2Isabelle
  imports Main "HOL-Library.Word" "HOL-Library.AList"
begin

section \<open>The room relay of Game/server/index.ts\<close>

text \<open>
  The relay is a single-threaded event-driven program: every handler (a socket's
  \<^verbatim>\<open>message\<close>, \<^verbatim>\<open>pong\<close> and \<^verbatim>\<open>close\<close> listeners, the \<^verbatim>\<open>setTimeout\<close> callback of
  \<^verbatim>\<open>scheduleFlush\<close>, the two \<^verbatim>\<open>setInterval\<close> callbacks) runs to completion on the module
  state. The model makes that state a record, each handler a function on it, and the
  event loop a function \<open>step\<close> that runs the handler of one event.
\<close>

subsection \<open>Strings\<close>

text \<open>
  A JavaScript string is the list of its UTF-16 code units; \<open>js\<close> turns an ASCII literal
  into one. \<^verbatim>\<open>trim\<close> strips the white space and line terminators of ECMAScript from both
  ends: TAB, LF, VT, FF, CR, SPACE, U+00A0, U+1680, U+2000 to U+200A, U+2028, U+2029,
  U+202F, U+205F, U+3000 and U+FEFF. \<^verbatim>\<open>slice(a, b)\<close> with \<open>0 \<le> a \<le> b\<close> is
  \<open>take (b - a) \<circ> drop a\<close>. \<^verbatim>\<open>toUpperCase\<close> is modelled on the letters a to z; the letters
  beyond ASCII are left as they are, and none of them upper-cases to a text that consists of
  the letters A, B, U, T and O.
\<close>

type_synonym jsstring = "nat list"

definition js :: "string \<Rightarrow> jsstring" where
  "js t = map of_char t"

definition toUpperUnit :: "nat \<Rightarrow> nat" where
  "toUpperUnit u = (if 97 \<le> u \<and> u \<le> 122 then u - 32 else u)"

definition toUpperCase :: "jsstring \<Rightarrow> jsstring" where
  "toUpperCase s = map toUpperUnit s"

definition isWhiteSpace :: "nat \<Rightarrow> bool" where
  "isWhiteSpace u \<longleftrightarrow>
     u \<in> set [0x09, 0x0A, 0x0B, 0x0C, 0x0D, 0x20, 0xA0, 0x1680, 0x2028, 0x2029, 0x202F,
              0x205F, 0x3000, 0xFEFF] \<or>
     (0x2000 \<le> u \<and> u \<le> 0x200A)"

definition trim :: "jsstring \<Rightarrow> jsstring" where
  "trim s = rev (dropWhile isWhiteSpace (rev (dropWhile isWhiteSpace s)))"

definition slice :: "nat \<Rightarrow> nat \<Rightarrow> jsstring \<Rightarrow> jsstring" where
  "slice a b s = take (b - a) (drop a s)"

subsection \<open>Parsed frames\<close>

text \<open>
  What \<^verbatim>\<open>JSON.parse\<close> returns. A number is given by what the handlers observe of it:
  whether it is zero, and the text that \<^verbatim>\<open>String\<close> makes of it. An object lists its
  members in the order of the frame; a later member with the same key overrides an earlier
  one.
\<close>

datatype json =
    JNull
  | JBool bool
  | JNum bool jsstring
  | JStr jsstring
  | JArr "json list"
  | JObj "(jsstring \<times> json) list"

text \<open>
  \<^verbatim>\<open>msg.k\<close> for a parsed, non-null \<^verbatim>\<open>msg\<close>: the member of an object, \<^verbatim>\<open>undefined\<close> (here
  \<open>None\<close>) when there is none or when \<^verbatim>\<open>msg\<close> is not an object. None of the keys the
  handlers read is a property of a prototype.
\<close>

definition get_prop :: "json \<Rightarrow> jsstring \<Rightarrow> json option" where
  "get_prop v k = (case v of JObj kvs \<Rightarrow> map_of (rev kvs) k | _ \<Rightarrow> None)"

text \<open>The values that \<^verbatim>\<open>v || ""\<close> replaces by the empty string.\<close>

fun falsy :: "json option \<Rightarrow> bool" where
  "falsy None = True"
| "falsy (Some JNull) = True"
| "falsy (Some (JBool b)) = (\<not> b)"
| "falsy (Some (JNum z t)) = z"
| "falsy (Some (JStr t)) = (t = [])"
| "falsy (Some (JArr xs)) = False"
| "falsy (Some (JObj kvs)) = False"

datatype failure = SendOnClosedSocket | TypeError | RangeError | NoReturn

text \<open>
  \<^verbatim>\<open>String(v)\<close>. An array is joined with commas, \<^verbatim>\<open>null\<close> elements giving the empty text,
  and the recursion into nested arrays exhausts the stack at some depth \<open>d\<close>. An object is
  converted by its \<^verbatim>\<open>toString\<close>: the inherited one gives \<^verbatim>\<open>[object Object]\<close>; an own member
  of that name is a parsed value and so not callable, and the inherited \<^verbatim>\<open>valueOf\<close> returns
  the object itself, so that the conversion throws a TypeError.
\<close>

fun ToString :: "nat \<Rightarrow> json \<Rightarrow> failure + jsstring"
  and join :: "nat \<Rightarrow> json list \<Rightarrow> failure + jsstring" where
  "ToString d JNull = Inr (js ''null'')"
| "ToString d (JBool b) = Inr (if b then js ''true'' else js ''false'')"
| "ToString d (JNum z t) = Inr t"
| "ToString d (JStr t) = Inr t"
| "ToString d (JObj kvs) =
     (if map_of kvs (js ''toString'') \<noteq> None then Inl TypeError
      else Inr (js ''[object Object]''))"
| "ToString d (JArr xs) = (case d of 0 \<Rightarrow> Inl RangeError | Suc d' \<Rightarrow> join d' xs)"
| "join d [] = Inr []"
| "join d (x # xs) =
     (case (if x = JNull then Inr [] else ToString d x) of
        Inl e \<Rightarrow> Inl e
      | Inr a \<Rightarrow>
          if xs = [] then Inr a
          else (case join d xs of Inl e \<Rightarrow> Inl e | Inr b \<Rightarrow> Inr (a @ js '','' @ b)))"

text \<open>The nesting of arrays and objects in a value, which \<^verbatim>\<open>JSON.stringify\<close> recurses on.\<close>

fun nesting :: "json \<Rightarrow> nat" where
  "nesting (JArr xs) = Suc (foldr max (map nesting xs) 0)"
| "nesting (JObj kvs) = Suc (foldr max (map (\<lambda>kv. nesting (snd kv)) kvs) 0)"
| "nesting v = 0"

subsection \<open>Data\<close>

text \<open>
  A \<^verbatim>\<open>WebSocket\<close> object is known by its identity: the handle is the number of the
  connection, in order of arrival.
\<close>

type_synonym WebSocket = nat

datatype Seat = Seat_A | Seat_B

text \<open>The local type \<^verbatim>\<open>Seat | "spectator"\<close> of the join handler.\<close>

datatype SeatOrSpectator = TheSeat Seat | spectator

text \<open>
  The field \<open>alive\<close> is true from the creation of a \<^verbatim>\<open>Player\<close> on and is only ever set to
  true, so the copy of the object that a room holds and the copy in \<open>me\<close> do not differ.
\<close>

record Player =
  id_str :: jsstring
  ws :: WebSocket
  room :: jsstring
  seat :: Seat
  name :: jsstring
  alive :: bool

text \<open>
  \<^verbatim>\<open>spectators\<close> is an optional \<^verbatim>\<open>Set\<close>; a JavaScript set iterates in insertion order, so it
  is a duplicate-free list to which \<open>set_add\<close> appends.
\<close>

record Room =
  A :: "Player option"
  B :: "Player option"
  spectators :: "WebSocket list option"

definition empty_room :: Room where
  "empty_room = \<lparr>A = None, B = None, spectators = None\<rparr>"

definition set_add :: "'a \<Rightarrow> 'a list \<Rightarrow> 'a list" where
  "set_add x xs = (if x \<in> set xs then xs else xs @ [x])"

definition set_delete :: "'a \<Rightarrow> 'a list \<Rightarrow> 'a list" where
  "set_delete x xs = removeAll x xs"

fun room_get :: "Room \<Rightarrow> Seat \<Rightarrow> Player option" where
  "room_get r Seat_A = A r"
| "room_get r Seat_B = B r"

fun room_set :: "Room \<Rightarrow> Seat \<Rightarrow> Player option \<Rightarrow> Room" where
  "room_set r Seat_A p = r\<lparr>A := p\<rparr>"
| "room_set r Seat_B p = r\<lparr>B := p\<rparr>"

fun seat_str :: "Seat \<Rightarrow> jsstring" where
  "seat_str Seat_A = js ''A''"
| "seat_str Seat_B = js ''B''"

text \<open>
  The relayed payload: \<^verbatim>\<open>msg.zones\<close> and \<^verbatim>\<open>msg.seq\<close> as they were parsed, \<open>None\<close> when the
  message has no such member.
\<close>

record ZonesPayload =
  fromSeat :: Seat
  zones :: "json option"
  seq :: "json option"

datatype RosterEntry = RosterEntry (entry_id: jsstring) (entry_name: jsstring) (entry_seat: Seat)

text \<open>The envelopes the server sends: \<open>Joined room id seat name\<close> carries the seat or the role.\<close>

datatype Outbound =
    Hello
  | Created jsstring
  | Joined jsstring jsstring SeatOrSpectator jsstring
  | Error jsstring
  | Roster jsstring "RosterEntry list"
  | ZonesRelay ZonesPayload

text \<open>An inbound frame: one that \<^verbatim>\<open>JSON.parse\<close> rejects, or the value it returns.\<close>

datatype Frame = Unparsable | Parsed json

datatype ReadyState = CONNECTING | OPEN | CLOSING | CLOSED

text \<open>
  What the handlers take from outside. \<open>randomByte E k i\<close> is byte \<open>i\<close> of the buffer that
  the \<open>k\<close>-th call of \<^verbatim>\<open>randomBytes\<close> returns, \<open>random36 E k\<close> the text
  \<^verbatim>\<open>Math.random().toString(36)\<close> of the \<open>k\<close>-th call of \<^verbatim>\<open>Math.random\<close>. \<open>toString_depth E\<close> is
  the depth of nested arrays at which \<^verbatim>\<open>String\<close> exhausts the stack and \<open>stringify_depth E\<close>
  the nesting of a relayed value up to which \<^verbatim>\<open>JSON.stringify\<close> does not.
\<close>

record Env =
  randomByte :: "nat \<Rightarrow> nat \<Rightarrow> 8 word"
  random36 :: "nat \<Rightarrow> jsstring"
  toString_depth :: nat
  stringify_depth :: nat

text \<open>
  The module state. \<open>rooms\<close> is the \<^verbatim>\<open>Map\<close>, an association list in insertion order;
  \<open>latestZones\<close> and \<open>ticking\<close> are the \<^verbatim>\<open>WeakMap\<close> and the \<^verbatim>\<open>WeakSet\<close>; \<open>timers\<close> holds
  the pending \<^verbatim>\<open>setTimeout\<close> callbacks of \<open>scheduleFlush\<close> with the time each is due, in
  the order they were set; \<open>me\<close> is the variable \<^verbatim>\<open>me\<close> of each connection's closure;
  \<open>clients\<close> is \<^verbatim>\<open>wss.clients\<close>. \<open>readyState\<close> and \<open>bufferedAmount\<close> are the sockets' own
  properties, \<open>outbox\<close> lists the calls of \<^verbatim>\<open>ws.send\<close> that went through, each with the
  value that was serialised, and \<open>pings\<close> those of \<^verbatim>\<open>ws.ping\<close>, oldest first. \<open>now\<close> is the
  clock in milliseconds, \<open>next_heartbeat\<close> and \<open>next_reap\<close> the times the two \<^verbatim>\<open>setInterval\<close>
  callbacks are due next; the last three fields count the calls of \<^verbatim>\<open>randomBytes\<close> and
  \<^verbatim>\<open>Math.random\<close> and the connections accepted.
\<close>

record state =
  rooms :: "(jsstring \<times> Room) list"
  latestZones :: "WebSocket \<Rightarrow> ZonesPayload option"
  ticking :: "WebSocket set"
  timers :: "(nat \<times> WebSocket) list"
  me :: "WebSocket \<Rightarrow> Player option"
  isAlive :: "WebSocket \<Rightarrow> bool"
  clients :: "WebSocket list"
  readyState :: "WebSocket \<Rightarrow> ReadyState"
  bufferedAmount :: "WebSocket \<Rightarrow> nat"
  outbox :: "(WebSocket \<times> Outbound) list"
  pings :: "WebSocket list"
  now :: nat
  next_heartbeat :: nat
  next_reap :: nat
  n_randomBytes :: nat
  n_random :: nat
  n_connections :: nat

definition init :: state where
  "init = \<lparr>rooms = [], latestZones = (\<lambda>_. None), ticking = {}, timers = [],
     me = (\<lambda>_. None), isAlive = (\<lambda>_. False), clients = [],
     readyState = (\<lambda>_. CONNECTING), bufferedAmount = (\<lambda>_. 0), outbox = [], pings = [],
     now = 0, next_heartbeat = 30000, next_reap = 60000, n_randomBytes = 0, n_random = 0,
     n_connections = 0\<rparr>"

text \<open>What a connection has been sent so far, oldest first.\<close>

definition delivered :: "state \<Rightarrow> WebSocket \<Rightarrow> Outbound list" where
  "delivered s w = map snd (filter (\<lambda>e. fst e = w) (outbox s))"

subsection \<open>send and broadcastRoom\<close>

text \<open>
  \<^verbatim>\<open>JSON.stringify(msg)\<close>. The envelopes are flat but for the relayed value, whose nesting
  the sender chooses: beyond \<open>stringify_depth E\<close> the recursion throws a RangeError. The
  text itself is not modelled; the result stands for it.
\<close>

definition too_deep :: "Env \<Rightarrow> json option \<Rightarrow> bool" where
  "too_deep E v = (case v of None \<Rightarrow> False | Some x \<Rightarrow> stringify_depth E < nesting x)"

definition JSON_stringify :: "Env \<Rightarrow> Outbound \<Rightarrow> failure + Outbound" where
  "JSON_stringify E msg =
     (case msg of
        ZonesRelay p \<Rightarrow>
          if too_deep E (zones p) \<or> too_deep E (seq p) then Inl RangeError else Inr msg
      | _ \<Rightarrow> Inr msg)"

text \<open>\<^verbatim>\<open>ws.send\<close> of the library: it hands the message to an open socket and fails on any other.\<close>

definition ws_send :: "WebSocket \<Rightarrow> Outbound \<Rightarrow> state \<Rightarrow> failure + state" where
  "ws_send w msg s =
     (if readyState s w = OPEN then Inr (s\<lparr>outbox := outbox s @ [(w, msg)]\<rparr>)
      else Inl SendOnClosedSocket)"

text \<open>
  \<^verbatim>\<open>send(ws, msg, allowDrop)\<close>: the two early returns, then \<^verbatim>\<open>JSON.stringify\<close> and
  \<^verbatim>\<open>ws.send\<close> inside \<^verbatim>\<open>try { ... } catch {}\<close>, which turns a failure of either into doing
  nothing.
\<close>

definition send :: "Env \<Rightarrow> WebSocket \<Rightarrow> Outbound \<Rightarrow> bool \<Rightarrow> state \<Rightarrow> state" where
  "send E w msg allowDrop s =
     (if readyState s w \<noteq> OPEN then s
      else if allowDrop \<and> bufferedAmount s w > 256 * 1024 then s
      else (case JSON_stringify E msg of
              Inl _ \<Rightarrow> s
            | Inr text \<Rightarrow> (case ws_send w text s of Inl _ \<Rightarrow> s | Inr s' \<Rightarrow> s')))"

text \<open>\<^verbatim>\<open>xs.filter(Boolean)\<close> on a list of optional objects.\<close>

fun filter_Boolean :: "'a option list \<Rightarrow> 'a list" where
  "filter_Boolean [] = []"
| "filter_Boolean (None # xs) = filter_Boolean xs"
| "filter_Boolean (Some x # xs) = x # filter_Boolean xs"

definition roster_of :: "Room \<Rightarrow> RosterEntry list" where
  "roster_of r = map (\<lambda>p. RosterEntry (id_str p) (name p) (seat p)) (filter_Boolean [A r, B r])"

definition broadcastRoom :: "Env \<Rightarrow> jsstring \<Rightarrow> state \<Rightarrow> state" where
  "broadcastRoom E roomId s =
     (case map_of (rooms s) roomId of
        None \<Rightarrow> s
      | Some r \<Rightarrow>
          let roster = roster_of r;
              s1 = foldl (\<lambda>t p. send E (ws p) (Roster roomId roster) False t) s
                     (filter_Boolean [A r, B r])
          in (case spectators r of
                None \<Rightarrow> s1
              | Some sp \<Rightarrow> foldl (\<lambda>t w. send E w (Roster roomId roster) False t) s1 sp))"

subsection \<open>The join handler\<close>

definition pickAuto :: "Room \<Rightarrow> SeatOrSpectator" where
  "pickAuto r = (if A r = None then TheSeat Seat_A
                 else if B r = None then TheSeat Seat_B else spectator)"

text \<open>The seat decision of the handler, from the upper-cased request and the room.\<close>

definition assign_seat :: "jsstring \<Rightarrow> Room \<Rightarrow> SeatOrSpectator" where
  "assign_seat requested r =
     (if requested = js ''A'' then TheSeat Seat_A
      else if requested = js ''B'' then TheSeat Seat_B
      else if requested = js ''AUTO'' then pickAuto r
      else spectator)"

text \<open>
  The handler from the three converted texts on: \<open>msg_room\<close>, \<open>msg_seat\<close> and \<open>msg_name\<close>
  are the values of \<^verbatim>\<open>String(msg.room || "")\<close>, \<^verbatim>\<open>String(msg.seat || "")\<close> and
  \<^verbatim>\<open>String(msg.name || "")\<close>.
\<close>

definition join_with ::
  "Env \<Rightarrow> WebSocket \<Rightarrow> jsstring \<Rightarrow> jsstring \<Rightarrow> jsstring \<Rightarrow> state \<Rightarrow> state" where
  "join_with E w msg_room msg_seat msg_name s =
     (let roomId = trim msg_room;
          requested = toUpperCase msg_seat;
          nm = slice 0 24 (if trim msg_name = [] then js ''Player'' else trim msg_name)
      in if roomId = [] then send E w (Error (js ''room required'')) False s
         else
           let r = (case map_of (rooms s) roomId of Some r0 \<Rightarrow> r0 | None \<Rightarrow> empty_room);
               s1 = s\<lparr>rooms := AList.update roomId r (rooms s)\<rparr>
           in (case assign_seat requested r of
                spectator \<Rightarrow>
                  let r' = r\<lparr>spectators :=
                              Some (set_add w (case spectators r of None \<Rightarrow> [] | Some sp \<Rightarrow> sp))\<rparr>;
                      s2 = s1\<lparr>rooms := AList.update roomId r' (rooms s1),
                              n_random := Suc (n_random s1)\<rparr>;
                      ident = js ''Spectator-'' @ slice 2 7 (random36 E (n_random s1))
                  in broadcastRoom E roomId
                       (send E w (Joined roomId ident spectator nm) False s2)
              | TheSeat st \<Rightarrow>
                  if room_get r st \<noteq> None
                  then send E w (Error (js ''Seat '' @ seat_str st @ js '' is occupied'')) False s1
                  else
                    let ident = js ''Player-'' @ slice 2 7 (random36 E (n_random s1));
                        p = \<lparr>id_str = ident, ws = w, room = roomId, seat = st, name = nm,
                             alive = True\<rparr>;
                        s2 = s1\<lparr>me := (me s1)(w := Some p),
                                rooms := AList.update roomId (room_set r st (Some p)) (rooms s1),
                                n_random := Suc (n_random s1)\<rparr>
                    in broadcastRoom E roomId
                         (send E w (Joined roomId ident (TheSeat st) nm) False s2)))"

text \<open>\<^verbatim>\<open>String(v || "")\<close> for a member \<open>v\<close> of the message.\<close>

definition String_or_empty :: "Env \<Rightarrow> json option \<Rightarrow> failure + jsstring" where
  "String_or_empty E v =
     (case v of
        None \<Rightarrow> Inr []
      | Some x \<Rightarrow> if falsy (Some x) then Inr [] else ToString (toString_depth E) x)"

text \<open>
  The join branch of the message handler. The three conversions run first and in this
  order; one that throws ends the handler, and nothing catches the exception.
\<close>

definition on_join :: "Env \<Rightarrow> WebSocket \<Rightarrow> json \<Rightarrow> state \<Rightarrow> failure + state" where
  "on_join E w msg s =
     (case String_or_empty E (get_prop msg (js ''room'')) of
        Inl e \<Rightarrow> Inl e
      | Inr msg_room \<Rightarrow>
          (case String_or_empty E (get_prop msg (js ''seat'')) of
             Inl e \<Rightarrow> Inl e
           | Inr msg_seat \<Rightarrow>
               (case String_or_empty E (get_prop msg (js ''name'')) of
                  Inl e \<Rightarrow> Inl e
                | Inr msg_name \<Rightarrow> Inr (join_with E w msg_room msg_seat msg_name s))))"

subsection \<open>The coalescing scheduler\<close>

text \<open>
  The callback that \<open>scheduleFlush\<close> hands to \<^verbatim>\<open>setTimeout\<close>. The slot is deleted after
  \<^verbatim>\<open>send\<close> returns, whether or not \<^verbatim>\<open>send\<close> passed the payload on.
\<close>

definition flush :: "Env \<Rightarrow> WebSocket \<Rightarrow> state \<Rightarrow> state" where
  "flush E to s =
     (let s1 = s\<lparr>ticking := ticking s - {to}\<rparr>
      in case latestZones s1 to of
           None \<Rightarrow> s1
         | Some payload \<Rightarrow>
             (let s2 = send E to (ZonesRelay payload) True s1
              in s2\<lparr>latestZones := (latestZones s2)(to := None)\<rparr>))"

definition scheduleFlush :: "WebSocket \<Rightarrow> state \<Rightarrow> state" where
  "scheduleFlush to s =
     (if to \<in> ticking s then s
      else s\<lparr>ticking := insert to (ticking s), timers := timers s @ [(now s + 33, to)]\<rparr>)"

text \<open>The local function \<^verbatim>\<open>push\<close> of the zones handler.\<close>

definition push :: "ZonesPayload \<Rightarrow> WebSocket \<Rightarrow> state \<Rightarrow> state" where
  "push payload sock s = scheduleFlush sock (s\<lparr>latestZones := (latestZones s)(sock \<mapsto> payload)\<rparr>)"

text \<open>
  The zones branch of the message handler, for \<^verbatim>\<open>msg.zones\<close> and \<^verbatim>\<open>msg.seq\<close>; the test of
  \<^verbatim>\<open>me\<close> that guards the branch is its first case.
\<close>

definition on_zones :: "WebSocket \<Rightarrow> json option \<Rightarrow> json option \<Rightarrow> state \<Rightarrow> state" where
  "on_zones w msg_zones msg_seq s =
     (case me s w of
        None \<Rightarrow> s
      | Some m \<Rightarrow>
          (case map_of (rooms s) (room m) of
             None \<Rightarrow> s
           | Some r \<Rightarrow>
               (let payload = \<lparr>fromSeat = seat m, zones = msg_zones, seq = msg_seq\<rparr>;
                    otherSeat = (if seat m = Seat_A then Seat_B else Seat_A);
                    s1 = (case room_get r otherSeat of
                            None \<Rightarrow> s
                          | Some other \<Rightarrow> push payload (ws other) s)
                in (case spectators r of
                      None \<Rightarrow> s1
                    | Some sp \<Rightarrow> foldl (\<lambda>t x. push payload x t) s1 sp))))"

subsection \<open>Creating rooms\<close>

text \<open>\<^verbatim>\<open>randomBytes(n)\<close>, call number \<open>k\<close>, and \<^verbatim>\<open>buf.toString("hex")\<close>.\<close>

definition randomBytes :: "Env \<Rightarrow> nat \<Rightarrow> nat \<Rightarrow> 8 word list" where
  "randomBytes E k n = map (randomByte E k) [0..<n]"

definition hex_digit :: "nat \<Rightarrow> nat" where
  "hex_digit d = js ''0123456789abcdef'' ! (d mod 16)"

definition toString_hex :: "8 word list \<Rightarrow> jsstring" where
  "toString_hex bs = concat (map (\<lambda>b. [hex_digit (unat b div 16), hex_digit (unat b mod 16)]) bs)"

definition has :: "(jsstring \<times> Room) list \<Rightarrow> jsstring \<Rightarrow> bool" where
  "has rs k \<longleftrightarrow> map_of rs k \<noteq> None"

text \<open>
  The \<^verbatim>\<open>do ... while\<close> loop of \<open>generateUniqueRoomId\<close>, from call number \<open>k\<close> of
  \<^verbatim>\<open>randomBytes\<close> on; it returns the id and the number of the next call. The loop has no
  bound, so the function is partial: \<open>None\<close> is the loop that never ends.
\<close>

partial_function (option) generateUniqueRoomId ::
  "Env \<Rightarrow> (jsstring \<times> Room) list \<Rightarrow> nat \<Rightarrow> (jsstring \<times> nat) option" where
  "generateUniqueRoomId E rs k =
     (let ident = toString_hex (randomBytes E k 16)
      in if has rs ident then generateUniqueRoomId E rs (Suc k) else Some (ident, Suc k))"

definition on_create :: "Env \<Rightarrow> WebSocket \<Rightarrow> state \<Rightarrow> state option" where
  "on_create E w s =
     (case generateUniqueRoomId E (rooms s) (n_randomBytes s) of
        None \<Rightarrow> None
      | Some (roomId, k) \<Rightarrow>
          (let s1 = s\<lparr>n_randomBytes := k\<rparr>;
               s2 = (if \<not> has (rooms s1) roomId
                     then s1\<lparr>rooms := AList.update roomId empty_room (rooms s1)\<rparr> else s1)
           in Some (send E w (Created roomId) False s2)))"

subsection \<open>Closing, the heartbeat and the reaper\<close>

text \<open>The loop over \<open>rooms\<close> that the close handler runs for a connection without \<^verbatim>\<open>me\<close>.\<close>

fun close_spectator :: "Env \<Rightarrow> WebSocket \<Rightarrow> (jsstring \<times> Room) list \<Rightarrow> state \<Rightarrow> state" where
  "close_spectator E w [] s = s"
| "close_spectator E w ((rid, r) # rest) s =
     (case spectators r of
        None \<Rightarrow> close_spectator E w rest s
      | Some sp \<Rightarrow>
          if w \<in> set sp
          then (let sp' = set_delete w sp;
                    r' = r\<lparr>spectators := (if sp' = [] then None else Some sp')\<rparr>
                in broadcastRoom E rid (s\<lparr>rooms := AList.update rid r' (rooms s)\<rparr>))
          else close_spectator E w rest s)"

definition close_handler :: "Env \<Rightarrow> WebSocket \<Rightarrow> state \<Rightarrow> state" where
  "close_handler E w s =
     (case me s w of
        None \<Rightarrow> close_spectator E w (rooms s) s
      | Some m \<Rightarrow>
          (case map_of (rooms s) (room m) of
             None \<Rightarrow> s
           | Some r \<Rightarrow>
               (let r' = (if (case room_get r (seat m) of
                                None \<Rightarrow> False
                              | Some p \<Rightarrow> id_str p = id_str m)
                          then room_set r (seat m) None else r)
                in broadcastRoom E (room m) (s\<lparr>rooms := AList.update (room m) r' (rooms s)\<rparr>))))"

text \<open>
  A socket that closes: the library sets its state to \<^verbatim>\<open>CLOSED\<close>, takes it out of
  \<^verbatim>\<open>wss.clients\<close> and emits \<^verbatim>\<open>close\<close>, which runs the handler above.
\<close>

definition on_close :: "Env \<Rightarrow> WebSocket \<Rightarrow> state \<Rightarrow> state" where
  "on_close E w s =
     close_handler E w (s\<lparr>readyState := (readyState s)(w := CLOSED),
                         clients := removeAll w (clients s)\<rparr>)"

definition on_pong :: "WebSocket \<Rightarrow> state \<Rightarrow> state" where
  "on_pong w s =
     s\<lparr>isAlive := (isAlive s)(w := True),
       me := (case me s w of None \<Rightarrow> me s | Some m \<Rightarrow> (me s)(w \<mapsto> m\<lparr>alive := True\<rparr>))\<rparr>"

definition on_connection :: "Env \<Rightarrow> state \<Rightarrow> state" where
  "on_connection E s =
     (let w = n_connections s
      in send E w Hello False
           (s\<lparr>n_connections := Suc w, clients := clients s @ [w],
              readyState := (readyState s)(w := OPEN), me := (me s)(w := None),
              isAlive := (isAlive s)(w := True)\<rparr>))"

text \<open>
  The body of the heartbeat's \<^verbatim>\<open>forEach\<close> for one socket, with the sockets terminated so
  far. \<^verbatim>\<open>terminate()\<close> sets the state to \<^verbatim>\<open>CLOSING\<close> and destroys the socket; \<^verbatim>\<open>ping()\<close>
  reaches an open socket only, and its failure is caught.
\<close>

definition sweep_one :: "state \<times> WebSocket list \<Rightarrow> WebSocket \<Rightarrow> state \<times> WebSocket list"
  where
  "sweep_one acc w =
     (let s = fst acc; dead = snd acc
      in if isAlive s w = False
         then (s\<lparr>readyState := (readyState s)(w := CLOSING)\<rparr>, dead @ [w])
         else (let s1 = s\<lparr>isAlive := (isAlive s)(w := False)\<rparr>
               in (if readyState s1 w = OPEN then s1\<lparr>pings := pings s1 @ [w]\<rparr> else s1, dead)))"

definition sweep :: "state \<Rightarrow> state \<times> WebSocket list" where
  "sweep s = foldl sweep_one (s, []) (clients s)"

text \<open>
  The heartbeat callback, followed by what the destroyed sockets cause: each emits
  \<^verbatim>\<open>close\<close> once the callback has returned, in the order they were terminated.
\<close>

definition heartbeat :: "Env \<Rightarrow> state \<Rightarrow> state" where
  "heartbeat E s = (let r = sweep s in foldl (\<lambda>t w. on_close E w t) (fst r) (snd r))"

definition reapable :: "Room \<Rightarrow> bool" where
  "reapable r \<longleftrightarrow>
     (let hasPlayers = (case A r of Some p \<Rightarrow> True | None \<Rightarrow> (case B r of Some p \<Rightarrow> True | None \<Rightarrow> False));
          hasSpectators = (case spectators r of None \<Rightarrow> False | Some sp \<Rightarrow> sp \<noteq> [])
      in \<not> hasPlayers \<and> \<not> hasSpectators)"

definition reap :: "state \<Rightarrow> state" where
  "reap s = s\<lparr>rooms := filter (\<lambda>e. \<not> reapable (snd e)) (rooms s)\<rparr>"

subsection \<open>The event loop\<close>

text \<open>
  One event is one handler run. \<open>Elapse d\<close> lets \<open>d\<close> milliseconds pass, \<open>Buffered w n\<close> is
  the network changing \<^verbatim>\<open>bufferedAmount\<close> of a socket. A timer fires no earlier than it is
  due; the timeouts of \<open>scheduleFlush\<close> all wait 33 ms, so the oldest is due first. A frame
  or a pong arrives on an open socket only. A handler that throws, or does not return,
  ends the run: nothing catches the exception.
\<close>

datatype event =
    Elapse nat
  | Buffered WebSocket nat
  | Connection
  | Message WebSocket "Frame"
  | Pong WebSocket
  | Close WebSocket
  | FlushTimeout
  | HeartbeatInterval
  | ReapInterval

text \<open>
  The message handler. Reading \<^verbatim>\<open>msg.type\<close> of the value \<^verbatim>\<open>null\<close> throws a TypeError; the
  comparisons with \<^verbatim>\<open>===\<close> hold for a string member only.
\<close>

definition on_message :: "Env \<Rightarrow> WebSocket \<Rightarrow> Frame \<Rightarrow> state \<Rightarrow> failure + state" where
  "on_message E w frame s =
     (case frame of
        Unparsable \<Rightarrow> Inr s
      | Parsed msg \<Rightarrow>
          if msg = JNull then Inl TypeError
          else if get_prop msg (js ''type'') = Some (JStr (js ''create''))
          then (case on_create E w s of None \<Rightarrow> Inl NoReturn | Some s' \<Rightarrow> Inr s')
          else if get_prop msg (js ''type'') = Some (JStr (js ''join''))
          then on_join E w msg s
          else if get_prop msg (js ''type'') = Some (JStr (js ''zones''))
          then Inr (on_zones w (get_prop msg (js ''zones'')) (get_prop msg (js ''seq'')) s)
          else Inr s)"

definition connected :: "state \<Rightarrow> WebSocket \<Rightarrow> bool" where
  "connected s w \<longleftrightarrow> w \<in> set (clients s) \<and> readyState s w = OPEN"

definition step :: "Env \<Rightarrow> event \<Rightarrow> state \<Rightarrow> failure + state" where
  "step E ev s =
     (case ev of
        Elapse d \<Rightarrow> Inr (s\<lparr>now := now s + d\<rparr>)
      | Buffered w n \<Rightarrow> Inr (s\<lparr>bufferedAmount := (bufferedAmount s)(w := n)\<rparr>)
      | Connection \<Rightarrow> Inr (on_connection E s)
      | Message w frame \<Rightarrow> (if connected s w then on_message E w frame s else Inr s)
      | Pong w \<Rightarrow> Inr (if connected s w then on_pong w s else s)
      | Close w \<Rightarrow> Inr (if w \<in> set (clients s) then on_close E w s else s)
      | FlushTimeout \<Rightarrow>
          (case timers s of
             [] \<Rightarrow> Inr s
           | t # rest \<Rightarrow>
               Inr (if fst t \<le> now s then flush E (snd t) (s\<lparr>timers := rest\<rparr>) else s))
      | HeartbeatInterval \<Rightarrow>
          Inr (if next_heartbeat s \<le> now s
               then heartbeat E (s\<lparr>next_heartbeat := now s + 30000\<rparr>) else s)
      | ReapInterval \<Rightarrow>
          Inr (if next_reap s \<le> now s then reap (s\<lparr>next_reap := now s + 60000\<rparr>) else s))"

fun run :: "Env \<Rightarrow> event list \<Rightarrow> state \<Rightarrow> failure + state" where
  "run E [] s = Inr s"
| "run E (ev # evs) s = (case step E ev s of Inl e \<Rightarrow> Inl e | Inr s' \<Rightarrow> run E evs s')"

subsection \<open>Notions used in the statements\<close>

text \<open>\<^verbatim>\<open>rooms.get(roomId) || {}\<close>, and the display name the join handler computes.\<close>

definition room_or_empty :: "state \<Rightarrow> jsstring \<Rightarrow> Room" where
  "room_or_empty s roomId = (case map_of (rooms s) roomId of Some r \<Rightarrow> r | None \<Rightarrow> empty_room)"

definition display_name :: "jsstring \<Rightarrow> jsstring" where
  "display_name n = slice 0 24 (if trim n = [] then js ''Player'' else trim n)"

text \<open>
  A parsed frame is a join request whose room, seat and name convert to the texts \<open>rt\<close>,
  \<open>st\<close> and \<open>nt\<close>: its \<^verbatim>\<open>type\<close> is the string \<^verbatim>\<open>join\<close> and the three conversions of the join
  handler return these texts.
\<close>

definition join_request :: "Env \<Rightarrow> json \<Rightarrow> jsstring \<Rightarrow> jsstring \<Rightarrow> jsstring \<Rightarrow> bool" where
  "join_request E msg rt st nt \<longleftrightarrow>
     get_prop msg (js ''type'') = Some (JStr (js ''join'')) \<and>
     String_or_empty E (get_prop msg (js ''room'')) = Inr rt \<and>
     String_or_empty E (get_prop msg (js ''seat'')) = Inr st \<and>
     String_or_empty E (get_prop msg (js ''name'')) = Inr nt"

text \<open>The frame \<^verbatim>\<open>{"type":"join","room":r,"seat":v,"name":n}\<close> for a string \<open>r\<close>.\<close>

definition join_msg :: "jsstring \<Rightarrow> json \<Rightarrow> json \<Rightarrow> json" where
  "join_msg r v n =
     JObj [(js ''type'', JStr (js ''join'')), (js ''room'', JStr r), (js ''seat'', v),
           (js ''name'', n)]"


text \<open>The \<^verbatim>\<open>Player\<close> object a successful join to seat \<open>st\<close> creates in state \<open>s\<close>.\<close>

definition seated :: "Env \<Rightarrow> state \<Rightarrow> WebSocket \<Rightarrow> jsstring \<Rightarrow> Seat \<Rightarrow> jsstring \<Rightarrow> Player" where
  "seated E s w roomId st nm =
     \<lparr>id_str = js ''Player-'' @ slice 2 7 (random36 E (n_random s)), ws = w, room = roomId,
      seat = st, name = nm, alive = True\<rparr>"

definition add_spectator :: "WebSocket \<Rightarrow> Room \<Rightarrow> Room" where
  "add_spectator w r =
     r\<lparr>spectators := Some (set_add w (case spectators r of None \<Rightarrow> [] | Some sp \<Rightarrow> sp))\<rparr>"

text \<open>
  \<^verbatim>\<open>JSON.stringify\<close> returns on \<open>msg\<close>, and what a \<^verbatim>\<open>send\<close> without \<^verbatim>\<open>allowDrop\<close> of an
  envelope other than a relayed payload adds to the outbox.
\<close>

definition serialises :: "Env \<Rightarrow> Outbound \<Rightarrow> bool" where
  "serialises E msg \<longleftrightarrow> JSON_stringify E msg = Inr msg"

definition sent :: "state \<Rightarrow> WebSocket \<Rightarrow> Outbound \<Rightarrow> (WebSocket \<times> Outbound) list" where
  "sent s w msg = (if readyState s w = OPEN then [(w, msg)] else [])"

text \<open>
  The sockets of a room in the order \<open>broadcastRoom\<close> visits them, and the roster messages
  it sends for room \<open>r\<close> stored under \<open>roomId\<close>.
\<close>

definition members :: "Room \<Rightarrow> WebSocket list" where
  "members r =
     map ws (filter_Boolean [A r, B r]) @ (case spectators r of None \<Rightarrow> [] | Some sp \<Rightarrow> sp)"

definition roster_messages :: "state \<Rightarrow> jsstring \<Rightarrow> Room \<Rightarrow> (WebSocket \<times> Outbound) list" where
  "roster_messages s roomId r =
     map (\<lambda>w. (w, Roster roomId (roster_of r))) (filter (\<lambda>w. readyState s w = OPEN) (members r))"

text \<open>The first message that socket \<open>w\<close> was sent between the states \<open>s\<close> and \<open>s'\<close>.\<close>

definition reply :: "state \<Rightarrow> state \<Rightarrow> WebSocket \<Rightarrow> Outbound option" where
  "reply s s' w =
     (case drop (length (delivered s w)) (delivered s' w) of [] \<Rightarrow> None | m # _ \<Rightarrow> Some m)"



subsection \<open>A concrete server\<close>

text \<open>A value nested \<open>n + 1\<close> arrays deep.\<close>

fun deep :: "nat \<Rightarrow> json" where
  "deep 0 = JArr []"
| "deep (Suc n) = JArr [deep n]"

definition E0 :: Env where
  "E0 = \<lparr>randomByte = (\<lambda>k i. of_nat (16 * k + i)),
         random36 = (\<lambda>k. if k = 0 then js ''0.k3x9qz7''
                         else if k = 1 then js ''0.a1b2c3d'' else js ''0.zzzzzzz''),
         toString_depth = 5000, stringify_depth = 5000\<rparr>"

text \<open>
  Three connections accepted; connection 0 seated at A in the room \<open>lobby\<close>; connection 1
  seated at B as well; connection 2 watching. \<open>ann\<close> and \<open>bob\<close> are the two \<^verbatim>\<open>Player\<close>
  objects of the room.
\<close>

definition conn3 :: state where
  "conn3 = on_connection E0 (on_connection E0 (on_connection E0 init))"

definition lobbyA :: state where
  "lobbyA = join_with E0 0 (js ''lobby'') (js ''A'') (js ''Ann'') conn3"

definition lobbyAB :: state where
  "lobbyAB = join_with E0 1 (js ''lobby'') (js ''B'') (js ''Bob'') lobbyA"

definition lobbyABS :: state where
  "lobbyABS = join_with E0 2 (js ''lobby'') (js ''SPECTATOR'') (js ''Cy'') lobbyAB"

definition ann :: Player where
  "ann = \<lparr>id_str = js ''Player-k3x9q'', ws = 0, room = js ''lobby'', seat = Seat_A,
          name = js ''Ann'', alive = True\<rparr>"

definition bob :: Player where
  "bob = \<lparr>id_str = js ''Player-a1b2c'', ws = 1, room = js ''lobby'', seat = Seat_B,
          name = js ''Bob'', alive = True\<rparr>"

text \<open>A member that \<^verbatim>\<open>String\<close> cannot convert: the object \<^verbatim>\<open>{"toString":1}\<close>.\<close>

definition unconvertible :: json where
  "unconvertible = JObj [(js ''toString'', JNum False (js ''1''))]"

subsection \<open>Notions of the relay\<close>

text \<open>
  The sockets the zones handler pushes to for a sender seated at \<open>st\<close> in room \<open>r\<close>: the
  occupant of the other seat, then the spectators.
\<close>

definition other_seat :: "Seat \<Rightarrow> Seat" where
  "other_seat st = (if st = Seat_A then Seat_B else Seat_A)"

definition relay_targets :: "Room \<Rightarrow> Seat \<Rightarrow> WebSocket list" where
  "relay_targets r st =
     (case room_get r (other_seat st) of None \<Rightarrow> [] | Some p \<Rightarrow> [ws p]) @
     (case spectators r of None \<Rightarrow> [] | Some sp \<Rightarrow> sp)"

text \<open>The frame \<^verbatim>\<open>{"type":"zones","zones":z,"seq":q}\<close>.\<close>

definition zones_msg :: "json \<Rightarrow> json \<Rightarrow> json" where
  "zones_msg z q = JObj [(js ''type'', JStr (js ''zones'')), (js ''zones'', z), (js ''seq'', q)]"




text \<open>
  A non-zero number written \<open>t\<close>; ten messages 3 ms apart, numbered 1 to 10, the last of
  them with the value \<open>z\<close> for its zones.
\<close>

definition num :: "string \<Rightarrow> json" where
  "num t = JNum False (js t)"





subsection \<open>Notions of room creation\<close>

text \<open>The id that \<open>generateUniqueRoomId\<close> draws with call number \<open>n\<close> of \<^verbatim>\<open>randomBytes\<close>.\<close>

definition sample_id :: "Env \<Rightarrow> nat \<Rightarrow> jsstring" where
  "sample_id E n = toString_hex (randomBytes E n 16)"

text \<open>The server with three connections and a room stored under the first id \<open>E0\<close> draws.\<close>

definition taken :: state where
  "taken = conn3\<lparr>rooms := [(js ''000102030405060708090a0b0c0d0e0f'', empty_room)]\<rparr>"

text \<open>The frame \<^verbatim>\<open>{"type":"create"}\<close>.\<close>

definition create_msg :: json where
  "create_msg = JObj [(js ''type'', JStr (js ''create''))]"

section \<open>Properties\<close>

subsection \<open>Strings\<close>

lemma js_inject [simp]: "js a = js b \<longleftrightarrow> a = b"
  unfolding js_def by (rule inj_map_eq_map) (rule inj_onI, simp)

lemma js_Nil [simp]: "js [] = []" "js a = [] \<longleftrightarrow> a = []" "[] = js a \<longleftrightarrow> a = []"
  by (auto simp: js_def)

lemma js_append: "js a @ js b = js (a @ b)"
  by (simp add: js_def)



lemma upper_literals:
  "toUpperCase (js ''A'') = js ''A''" "toUpperCase (js ''B'') = js ''B''"
  "toUpperCase (js ''AUTO'') = js ''AUTO''"
  "toUpperCase (js ''SPECTATOR'') = js ''SPECTATOR''"
  by (simp_all add: toUpperCase_def toUpperUnit_def js_def)

lemma trim_lobby: "trim (js ''lobby'') = js ''lobby''"
  by (simp add: trim_def isWhiteSpace_def js_def)

lemma nesting_deep: "nesting (deep n) = Suc n"
  by (induction n) simp_all

subsection \<open>What send and broadcastRoom add to the outbox\<close>

lemma serialises_simps [simp]:
  "serialises E Hello" "serialises E (Created r)" "serialises E (Joined r i st n)"
  "serialises E (Error e)" "serialises E (Roster r es)"
  "serialises E (ZonesRelay p) \<longleftrightarrow> \<not> too_deep E (zones p) \<and> \<not> too_deep E (seq p)"
  by (simp_all add: serialises_def JSON_stringify_def)

lemma send_eq:
  "send E w msg allowDrop s =
     (if readyState s w = OPEN \<and> \<not> (allowDrop \<and> 256 * 1024 < bufferedAmount s w) \<and>
         serialises E msg
      then s\<lparr>outbox := outbox s @ [(w, msg)]\<rparr> else s)"
  by (cases msg) (simp_all add: send_def ws_send_def serialises_def JSON_stringify_def)

lemma foldl_send:
  "serialises E msg \<Longrightarrow>
   foldl (\<lambda>t x. send E (f x) msg False t) s xs =
     s\<lparr>outbox := outbox s @ map (\<lambda>x. (f x, msg)) (filter (\<lambda>x. readyState s (f x) = OPEN) xs)\<rparr>"
proof (induction xs arbitrary: s)
  case Nil
  show ?case by simp
next
  case (Cons x xs)
  have "foldl (\<lambda>t x. send E (f x) msg False t) s (x # xs) =
        foldl (\<lambda>t x. send E (f x) msg False t) (send E (f x) msg False s) xs"
    by simp
  also have "\<dots> = (send E (f x) msg False s)\<lparr>outbox := outbox (send E (f x) msg False s) @
       map (\<lambda>x. (f x, msg)) (filter (\<lambda>y. readyState (send E (f x) msg False s) (f y) = OPEN) xs)\<rparr>"
    by (rule Cons.IH) (rule Cons.prems)
  also have "\<dots> = s\<lparr>outbox := outbox s @ map (\<lambda>x. (f x, msg))
       (filter (\<lambda>x. readyState s (f x) = OPEN) (x # xs))\<rparr>"
    using Cons.prems by (simp add: send_eq)
  finally show ?case .
qed

lemma broadcastRoom_eq:
  "map_of (rooms s) roomId = Some r \<Longrightarrow>
   broadcastRoom E roomId s = s\<lparr>outbox := outbox s @ roster_messages s roomId r\<rparr>"
  by (simp add: broadcastRoom_def Let_def foldl_send[where f = ws, OF serialises_simps(5)]
      foldl_send[where f = "\<lambda>x. x", OF serialises_simps(5)] roster_messages_def members_def filter_map o_def split: option.splits)

lemma reply_first: "outbox s' = outbox s @ (w, m) # rest \<Longrightarrow> reply s s' w = Some m"
  by (simp add: reply_def delivered_def)

subsection \<open>The join handler, case by case\<close>

lemma assign_explicit: "assign_seat (seat_str st) r = TheSeat st"
  by (cases st) (simp_all add: assign_seat_def)


lemma occupied_room:
  "room_get (room_or_empty s roomId) st \<noteq> None \<Longrightarrow>
   map_of (rooms s) roomId = Some (room_or_empty s roomId)"
  by (cases st) (auto simp: room_or_empty_def empty_room_def split: option.splits)

lemma join_with_no_room:
  "trim msg_room = [] \<Longrightarrow>
   join_with E w msg_room msg_seat msg_name s =
     s\<lparr>outbox := outbox s @ sent s w (Error (js ''room required''))\<rparr>"
  by (simp add: join_with_def send_eq sent_def)

lemma join_with_error:
  assumes "trim msg_room \<noteq> []"
    and "assign_seat (toUpperCase msg_seat) (room_or_empty s (trim msg_room)) = TheSeat st"
    and "room_get (room_or_empty s (trim msg_room)) st \<noteq> None"
  shows "join_with E w msg_room msg_seat msg_name s =
         s\<lparr>outbox := outbox s @ sent s w (Error ((js ''Seat '') @ seat_str st @ (js '' is occupied'')))\<rparr>"
proof -
  have "map_of (rooms s) (trim msg_room) = Some (room_or_empty s (trim msg_room))"
    using assms(3) by (rule occupied_room)
  then have "AList.update (trim msg_room) (room_or_empty s (trim msg_room)) (rooms s) = rooms s"
    by (rule AList.update_triv)
  then show ?thesis
    using assms by (simp add: join_with_def Let_def room_or_empty_def[symmetric] send_eq sent_def)
qed

lemma join_with_seat:
  assumes "trim msg_room \<noteq> []"
    and "assign_seat (toUpperCase msg_seat) (room_or_empty s (trim msg_room)) = TheSeat st"
    and "room_get (room_or_empty s (trim msg_room)) st = None"
  shows "join_with E w msg_room msg_seat msg_name s =
         (let roomId = trim msg_room;
              p = seated E s w roomId st (display_name msg_name);
              r' = room_set (room_or_empty s roomId) st (Some p)
          in s\<lparr>rooms := AList.update roomId r' (rooms s),
               me := (me s)(w := Some p),
               n_random := Suc (n_random s),
               outbox := outbox s @ sent s w (Joined roomId (id_str p) (TheSeat st) (name p))
                           @ roster_messages s roomId r'\<rparr>)"
  using assms
  by (simp add: join_with_def Let_def room_or_empty_def[symmetric] display_name_def[symmetric]
      seated_def send_eq sent_def broadcastRoom_eq AList.update_conv' AList.update_last
      roster_messages_def)

lemma join_with_spectator:
  assumes "trim msg_room \<noteq> []"
    and "assign_seat (toUpperCase msg_seat) (room_or_empty s (trim msg_room)) = spectator"
  shows "join_with E w msg_room msg_seat msg_name s =
         (let roomId = trim msg_room;
              r' = add_spectator w (room_or_empty s roomId)
          in s\<lparr>rooms := AList.update roomId r' (rooms s),
               n_random := Suc (n_random s),
               outbox := outbox s @ sent s w (Joined roomId
                           ((js ''Spectator-'') @ slice 2 7 (random36 E (n_random s))) spectator
                           (display_name msg_name))
                           @ roster_messages s roomId r'\<rparr>)"
  using assms
  by (simp add: join_with_def Let_def room_or_empty_def[symmetric] display_name_def[symmetric]
      add_spectator_def send_eq sent_def broadcastRoom_eq AList.update_conv' AList.update_last
      roster_messages_def)

lemma join_with_readyState: "readyState (join_with E w msg_room msg_seat msg_name s) = readyState s"
proof (cases "trim msg_room = []")
  case True
  then show ?thesis by (simp add: join_with_no_room)
next
  case False
  show ?thesis
  proof (cases "assign_seat (toUpperCase msg_seat) (room_or_empty s (trim msg_room))")
    case spectator
    show ?thesis by (simp add: join_with_spectator [OF False spectator] Let_def)
  next
    case (TheSeat st)
    show ?thesis
    proof (cases "room_get (room_or_empty s (trim msg_room)) st = None")
      case True
      show ?thesis by (simp add: join_with_seat [OF False TheSeat True] Let_def)
    next
      case occ: False
      show ?thesis by (simp add: join_with_error [OF False TheSeat occ])
    qed
  qed
qed



lemma join_seat_room:
  assumes "trim msg_room \<noteq> []" "toUpperCase msg_seat = seat_str st"
    "room_get (room_or_empty s (trim msg_room)) st = None"
  shows "room_or_empty (join_with E w msg_room msg_seat msg_name s) (trim msg_room) =
           room_set (room_or_empty s (trim msg_room)) st
             (Some (seated E s w (trim msg_room) st (display_name msg_name)))"
proof -
  have a: "assign_seat (toUpperCase msg_seat) (room_or_empty s (trim msg_room)) = TheSeat st"
    using assms(2) by (simp add: assign_explicit)
  show ?thesis
    by (simp add: join_with_seat [OF assms(1) a assms(3)] Let_def room_or_empty_def
        AList.update_conv')
qed

lemma join_explicit_occupied:
  assumes "trim msg_room \<noteq> []" "readyState s w = OPEN" "toUpperCase msg_seat = seat_str st"
    "room_get (room_or_empty s (trim msg_room)) st \<noteq> None"
  shows "join_with E w msg_room msg_seat msg_name s =
           s\<lparr>outbox := outbox s @ [(w, Error ((js ''Seat '') @ seat_str st @ (js '' is occupied'')))]\<rparr>"
proof -
  have a: "assign_seat (toUpperCase msg_seat) (room_or_empty s (trim msg_room)) = TheSeat st"
    using assms(3) by (simp add: assign_explicit)
  show ?thesis
    by (simp add: join_with_error [OF assms(1) a assms(4)] sent_def assms(2))
qed

lemma join_as_spectator:
  assumes "trim msg_room \<noteq> []" "readyState s w = OPEN"
    "assign_seat (toUpperCase msg_seat) (room_or_empty s (trim msg_room)) = spectator"
  shows "reply s (join_with E w msg_room msg_seat msg_name s) w =
           Some (Joined (trim msg_room) ((js ''Spectator-'') @ slice 2 7 (random36 E (n_random s)))
                   spectator (display_name msg_name))"
    and "room_or_empty (join_with E w msg_room msg_seat msg_name s) (trim msg_room) =
           add_spectator w (room_or_empty s (trim msg_room))"
    and "me (join_with E w msg_room msg_seat msg_name s) = me s"
proof -
  note eq = join_with_spectator [OF assms(1) assms(3), of E w msg_name]
  show "reply s (join_with E w msg_room msg_seat msg_name s) w =
           Some (Joined (trim msg_room) ((js ''Spectator-'') @ slice 2 7 (random36 E (n_random s)))
                   spectator (display_name msg_name))"
    by (rule reply_first [where rest = "roster_messages s (trim msg_room)
          (add_spectator w (room_or_empty s (trim msg_room)))"])
       (simp add: eq Let_def sent_def assms(2))
  show "room_or_empty (join_with E w msg_room msg_seat msg_name s) (trim msg_room) =
           add_spectator w (room_or_empty s (trim msg_room))"
    by (simp add: eq Let_def room_or_empty_def AList.update_conv')
  show "me (join_with E w msg_room msg_seat msg_name s) = me s"
    by (simp add: eq Let_def)
qed



subsection \<open>The concrete server\<close>

lemma literals:
  "display_name (js ''Ann'') = js ''Ann''" "display_name (js ''Bob'') = js ''Bob''"
  "display_name (js ''Cy'') = js ''Cy''"
  "slice 2 7 (js ''0.k3x9qz7'') = js ''k3x9q''" "slice 2 7 (js ''0.a1b2c3d'') = js ''a1b2c''"
  "slice 2 7 (js ''0.zzzzzzz'') = js ''zzzzz''"
  by (simp_all add: display_name_def trim_def isWhiteSpace_def slice_def js_def)

lemma conn3_eq:
  "conn3 = init\<lparr>me := (\<lambda>_. None), isAlive := (\<lambda>w. w < 3),
     clients := [0, 1, 2], readyState := (\<lambda>w. if w < 3 then OPEN else CONNECTING),
     outbox := [(0, Hello), (1, Hello), (2, Hello)], n_connections := 3\<rparr>"
  by (simp add: conn3_def on_connection_def init_def send_eq Let_def)
     (auto simp: fun_eq_iff)

lemma conn3_open: "w < 3 \<Longrightarrow> readyState conn3 w = OPEN"
  by (simp add: conn3_eq)

lemma conn3_rooms: "rooms conn3 = []"
  by (simp add: conn3_eq init_def)

lemma conn3_n_random: "n_random conn3 = 0"
  by (simp add: conn3_eq init_def)

lemma lobbyA_room:
  "room_or_empty lobbyA (js ''lobby'') =
     empty_room\<lparr>A := Some \<lparr>id_str = (js ''Player-k3x9q''), ws = 0, room = (js ''lobby''), seat = Seat_A,
                            name = (js ''Ann''), alive = True\<rparr>\<rparr>"
proof -
  have u: "toUpperCase (js ''A'') = seat_str Seat_A" by (simp add: upper_literals)
  have f: "room_get (room_or_empty conn3 (trim (js ''lobby''))) Seat_A = None"
    by (simp add: room_or_empty_def conn3_rooms empty_room_def)
  have rm: "trim (js ''lobby'') \<noteq> []" by (simp add: trim_lobby)
  show ?thesis
    unfolding lobbyA_def
    using join_seat_room [OF rm u f, of E0 0 "(js ''Ann'')"]
    by (simp add: trim_lobby room_or_empty_def conn3_rooms seated_def literals js_append
        E0_def conn3_eq init_def)
qed

lemma lobbyA_open: "w < 3 \<Longrightarrow> readyState lobbyA w = OPEN"
  by (simp add: lobbyA_def join_with_readyState conn3_open)

lemma lobbyA_eq:
  "lobbyA = conn3\<lparr>rooms := [((js ''lobby''), empty_room\<lparr>A := Some ann\<rparr>)],
      me := (me conn3)(0 := Some ann), n_random := 1,
      outbox := outbox conn3 @ [(0, Joined (js ''lobby'') (js ''Player-k3x9q'') (TheSeat Seat_A) (js ''Ann'')),
         (0, Roster (js ''lobby'') [RosterEntry (js ''Player-k3x9q'') (js ''Ann'') Seat_A])]\<rparr>"
proof -
  have rm: "trim (js ''lobby'') \<noteq> []" by (simp add: trim_lobby)
  have a: "assign_seat (toUpperCase (js ''A'')) (room_or_empty conn3 (trim (js ''lobby''))) = TheSeat Seat_A"
    by (simp add: upper_literals assign_seat_def)
  have f: "room_get (room_or_empty conn3 (trim (js ''lobby''))) Seat_A = None"
    by (simp add: room_or_empty_def conn3_rooms empty_room_def)
  show ?thesis
    unfolding lobbyA_def
    by (simp add: join_with_seat [OF rm a f] Let_def trim_lobby room_or_empty_def conn3_rooms
        conn3_n_random seated_def literals js_append E0_def
        ann_def sent_def conn3_open roster_messages_def members_def roster_of_def empty_room_def)
qed

lemma lobbyAB_eq:
  "lobbyAB = conn3\<lparr>rooms := [((js ''lobby''), \<lparr>A = Some ann, B = Some bob, spectators = None\<rparr>)],
      me := (me conn3)(0 := Some ann, 1 := Some bob), n_random := 2,
      outbox := outbox conn3 @ [(0, Joined (js ''lobby'') (js ''Player-k3x9q'') (TheSeat Seat_A) (js ''Ann'')),
         (0, Roster (js ''lobby'') [RosterEntry (js ''Player-k3x9q'') (js ''Ann'') Seat_A]),
         (1, Joined (js ''lobby'') (js ''Player-a1b2c'') (TheSeat Seat_B) (js ''Bob'')),
         (0, Roster (js ''lobby'') [RosterEntry (js ''Player-k3x9q'') (js ''Ann'') Seat_A,
                               RosterEntry (js ''Player-a1b2c'') (js ''Bob'') Seat_B]),
         (1, Roster (js ''lobby'') [RosterEntry (js ''Player-k3x9q'') (js ''Ann'') Seat_A,
                               RosterEntry (js ''Player-a1b2c'') (js ''Bob'') Seat_B])]\<rparr>"
proof -
  have rm: "trim (js ''lobby'') \<noteq> []" by (simp add: trim_lobby)
  have r: "room_or_empty lobbyA (trim (js ''lobby'')) = empty_room\<lparr>A := Some ann\<rparr>"
    by (simp add: trim_lobby lobbyA_room ann_def)
  have a: "assign_seat (toUpperCase (js ''B'')) (room_or_empty lobbyA (trim (js ''lobby''))) = TheSeat Seat_B"
    by (simp add: upper_literals assign_seat_def)
  have f: "room_get (room_or_empty lobbyA (trim (js ''lobby''))) Seat_B = None"
    by (simp add: r empty_room_def)
  have o: "readyState lobbyA = readyState conn3"
    by (simp add: lobbyA_def join_with_readyState)
  show ?thesis
    unfolding lobbyAB_def
    by (simp add: join_with_seat [OF rm a f] Let_def r o)
       (simp add: lobbyA_eq trim_lobby seated_def literals js_append E0_def ann_def bob_def sent_def conn3_open roster_messages_def members_def
        roster_of_def empty_room_def)
qed

lemma lobbyAB_facts:
  "rooms lobbyAB = [((js ''lobby''), \<lparr>A = Some ann, B = Some bob, spectators = None\<rparr>)]"
  "me lobbyAB 0 = Some ann" "me lobbyAB (Suc 0) = Some bob" "me lobbyAB 2 = None"
  "connected lobbyAB 0" "connected lobbyAB (Suc 0)" "connected lobbyAB 2"
  "ticking lobbyAB = {}" "timers lobbyAB = []" "latestZones lobbyAB = (\<lambda>_. None)"
  "readyState lobbyAB 0 = OPEN" "readyState lobbyAB (Suc 0) = OPEN" "readyState lobbyAB 2 = OPEN"
  "bufferedAmount lobbyAB = (\<lambda>_. 0)" "now lobbyAB = 0"
  "clients lobbyAB = [0, 1, 2]" "isAlive lobbyAB = (\<lambda>w. w < 3)"
  by (simp_all add: lobbyAB_eq conn3_eq init_def connected_def)

lemma lobbyAB_open: "w < 3 \<Longrightarrow> readyState lobbyAB w = OPEN"
  by (simp add: lobbyAB_eq conn3_eq)

lemma lobbyABS_eq:
  "lobbyABS = lobbyAB\<lparr>rooms := [((js ''lobby''), \<lparr>A = Some ann, B = Some bob, spectators = Some [2]\<rparr>)],
      n_random := 3,
      outbox := outbox lobbyAB @ [(2, Joined (js ''lobby'') (js ''Spectator-zzzzz'') spectator (js ''Cy'')),
         (0, Roster (js ''lobby'') [RosterEntry (js ''Player-k3x9q'') (js ''Ann'') Seat_A,
                               RosterEntry (js ''Player-a1b2c'') (js ''Bob'') Seat_B]),
         (1, Roster (js ''lobby'') [RosterEntry (js ''Player-k3x9q'') (js ''Ann'') Seat_A,
                               RosterEntry (js ''Player-a1b2c'') (js ''Bob'') Seat_B]),
         (2, Roster (js ''lobby'') [RosterEntry (js ''Player-k3x9q'') (js ''Ann'') Seat_A,
                               RosterEntry (js ''Player-a1b2c'') (js ''Bob'') Seat_B])]\<rparr>"
proof -
  have rm: "trim (js ''lobby'') \<noteq> []" by (simp add: trim_lobby)
  have a: "assign_seat (toUpperCase (js ''SPECTATOR'')) (room_or_empty lobbyAB (trim (js ''lobby''))) =
      spectator"
    by (simp add: upper_literals assign_seat_def)
  have n: "n_random lobbyAB = 2"
    by (simp add: lobbyAB_eq)
  show ?thesis
    unfolding lobbyABS_def
    by (simp add: join_with_spectator [OF rm a] Let_def trim_lobby room_or_empty_def
        lobbyAB_facts n add_spectator_def set_add_def literals js_append E0_def sent_def lobbyAB_open roster_messages_def members_def roster_of_def
        ann_def bob_def)
qed

lemma lobbyABS_facts:
  "rooms lobbyABS = [((js ''lobby''), \<lparr>A = Some ann, B = Some bob, spectators = Some [2]\<rparr>)]"
  "me lobbyABS 0 = Some ann" "me lobbyABS (Suc 0) = Some bob" "me lobbyABS 2 = None"
  "connected lobbyABS 0" "connected lobbyABS (Suc 0)" "connected lobbyABS 2"
  "ticking lobbyABS = {}" "timers lobbyABS = []" "latestZones lobbyABS = (\<lambda>_. None)"
  "bufferedAmount lobbyABS = (\<lambda>_. 0)" "now lobbyABS = 0"
  "clients lobbyABS = [0, 1, 2]" "isAlive lobbyABS = (\<lambda>w. w < 3)"
  "readyState lobbyABS = readyState lobbyAB"
  by (simp_all add: lobbyABS_eq lobbyAB_facts connected_def)

subsection \<open>From the frame to the join handler\<close>

lemma on_message_join:
  "join_request E msg rt qt nt \<Longrightarrow>
   on_message E w (Parsed msg) s = Inr (join_with E w rt qt nt s)"
  by (auto simp: join_request_def on_message_def on_join_def get_prop_def split: json.splits)

lemma String_or_empty_JStr: "String_or_empty E (Some (JStr x)) = Inr x"
  by (simp add: String_or_empty_def)

lemma String_or_empty_unconvertible: "String_or_empty E (Some unconvertible) = Inl TypeError"
  by (simp add: String_or_empty_def unconvertible_def)

lemma get_prop_join_msg:
  "get_prop (join_msg r v n) (js ''type'') = Some (JStr (js ''join''))"
  "get_prop (join_msg r v n) (js ''room'') = Some (JStr r)"
  "get_prop (join_msg r v n) (js ''seat'') = Some v"
  "get_prop (join_msg r v n) (js ''name'') = Some n"
  by (simp_all add: join_msg_def get_prop_def)






lemma join_msg_not_null: "join_msg r v n \<noteq> JNull"
  by (simp add: join_msg_def)

lemma join_msg_throws:
  "String_or_empty E (Some v) = Inl e \<or>
   (\<exists>q. String_or_empty E (Some v) = Inr q) \<and> String_or_empty E (Some n) = Inl e \<Longrightarrow>
   on_message E w (Parsed (join_msg r v n)) s = Inl e"
  by (auto simp: on_message_def on_join_def get_prop_join_msg String_or_empty_JStr
      join_msg_not_null)


subsection \<open>Seat assignment\<close>




subsection \<open>A join to an occupied seat\<close>

text \<open>
  A join request that converts and names seat A or B of a room in which that seat is
  taken leaves the whole state as it was, except for the outbox: the room table, every
  seat and spectator set, the connection's \<open>me\<close> and the scheduler are unchanged, and the
  one message sent is the \<open>error\<close> envelope to the joiner, so that no roster goes out.
\<close>

lemma occupied_join_changes_nothing:
  assumes "join_request E msg rt qt nt"
    and "trim rt \<noteq> []" and "readyState s w = OPEN"
    and "toUpperCase qt = seat_str st"
    and "map_of (rooms s) (trim rt) = Some r" and "room_get r st = Some p"
  shows "on_message E w (Parsed msg) s =
           Inr (s\<lparr>outbox := outbox s @
                    [(w, Error (js ''Seat '' @ seat_str st @ js '' is occupied''))]\<rparr>)"
proof -
  have occ: "room_get (room_or_empty s (trim rt)) st \<noteq> None"
    using assms(5,6) by (simp add: room_or_empty_def)
  show ?thesis
    unfolding on_message_join [OF assms(1)]
      join_explicit_occupied [OF assms(2) assms(3) assms(4) occ]
    by (rule refl)
qed

lemma lobbyA_connected: "w < 3 \<Longrightarrow> connected lobbyA w"
  by (auto simp: connected_def lobbyA_open lobbyA_eq conn3_eq)

lemma conn3_connected: "w < 3 \<Longrightarrow> connected conn3 w"
  by (auto simp: connected_def conn3_open conn3_eq)

text \<open>
  Claim C4 fails on a request the handler cannot convert. Connection 0 holds seat A of
  \<open>lobby\<close>; connection 1 sends the frame
  \<^verbatim>\<open>{"type":"join","room":"lobby","seat":"A","name":{"toString":1}}\<close>. The handler converts
  the name before it looks at the seat, the conversion throws a TypeError that nothing
  catches, and the joiner is sent no \<open>error\<close> envelope.
\<close>

theorem occupied_join_throws:
  "room_get (room_or_empty lobbyA (js ''lobby'')) Seat_A = Some ann \<and> connected lobbyA 1 \<and>
   step E0 (Message 1 (Parsed (join_msg (js ''lobby'') (JStr (js ''A'')) unconvertible))) lobbyA =
     Inl TypeError"
proof -
  have a: "room_get (room_or_empty lobbyA (js ''lobby'')) Seat_A = Some ann"
    by (simp add: lobbyA_room empty_room_def ann_def)
  have c: "connected lobbyA 1"
    by (simp add: lobbyA_connected)
  have t: "on_message E0 1 (Parsed (join_msg (js ''lobby'') (JStr (js ''A'')) unconvertible))
       lobbyA = Inl TypeError"
    by (rule join_msg_throws) (simp add: String_or_empty_JStr String_or_empty_unconvertible)
  show ?thesis
    using a c t by (simp add: step_def)
qed

subsection \<open>A join to an unknown room\<close>

lemma update_absent: "map_of al k = None \<Longrightarrow> AList.update k v al = al @ [(k, v)]"
  by (induction al) (auto split: if_splits)

lemma update_appended:
  "map_of al k = None \<Longrightarrow> AList.update k v (al @ [(k, e)]) = al @ [(k, v)]"
  by (induction al) (auto split: if_splits)

text \<open>
  A join request that converts and names a room id the table does not hold creates the
  room: the handler does exactly what it does when the empty room has been stored first,
  the id is in the table afterwards, as its last entry, and the joiner is answered
  \<open>joined\<close> with the seat or role that seat assignment gives in an empty room, never
  \<open>error\<close>.
\<close>

lemma join_creates_room:
  assumes jr: "join_request E msg rt qt nt"
    and rm: "trim rt \<noteq> []" and op: "readyState s w = OPEN"
    and new: "map_of (rooms s) (trim rt) = None"
  shows "\<exists>s'. on_message E w (Parsed msg) s = Inr s' \<and>
           on_message E w (Parsed msg) (s\<lparr>rooms := rooms s @ [(trim rt, empty_room)]\<rparr>) = Inr s' \<and>
           has (rooms s') (trim rt) \<and>
           map fst (rooms s') = map fst (rooms s) @ [trim rt] \<and>
           (\<exists>i. reply s s' w =
              Some (Joined (trim rt) i (assign_seat (toUpperCase qt) empty_room)
                      (display_name nt)))"
proof -
  let ?R = "trim rt"
  let ?s0 = "s\<lparr>rooms := rooms s @ [(?R, empty_room)]\<rparr>"
  have e: "room_or_empty s ?R = empty_room"
    using new by (simp add: room_or_empty_def)
  have e0: "room_or_empty ?s0 ?R = empty_room"
    using new by (simp add: room_or_empty_def map_add_def)
  have main: "join_with E w rt qt nt s = join_with E w rt qt nt ?s0 \<and>
           has (rooms (join_with E w rt qt nt s)) ?R \<and>
           map fst (rooms (join_with E w rt qt nt s)) = map fst (rooms s) @ [?R] \<and>
           (\<exists>i. reply s (join_with E w rt qt nt s) w =
              Some (Joined ?R i (assign_seat (toUpperCase qt) empty_room) (display_name nt)))"
  proof (cases "assign_seat (toUpperCase qt) empty_room")
    case spectator
    have a: "assign_seat (toUpperCase qt) (room_or_empty s ?R) = spectator"
      and a0: "assign_seat (toUpperCase qt) (room_or_empty ?s0 ?R) = spectator"
      using spectator by (simp_all only: e e0)
    have eq: "join_with E w rt qt nt s = join_with E w rt qt nt ?s0"
      by (simp add: join_with_spectator [OF rm a] join_with_spectator [OF rm a0] Let_def e e0
          update_absent [OF new] update_appended [OF new] roster_messages_def sent_def)
    have rooms': "rooms (join_with E w rt qt nt s) =
        rooms s @ [(?R, add_spectator w empty_room)]"
      by (simp add: join_with_spectator [OF rm a] Let_def e update_absent [OF new])
    have rep: "reply s (join_with E w rt qt nt s) w =
        Some (Joined ?R (js ''Spectator-'' @ slice 2 7 (random36 E (n_random s))) spectator
                (display_name nt))"
      by (rule join_as_spectator(1) [OF rm op a])
    show ?thesis
      using eq rooms' rep spectator by (simp add: has_def)
  next
    case (TheSeat st)
    have a: "assign_seat (toUpperCase qt) (room_or_empty s ?R) = TheSeat st"
      and a0: "assign_seat (toUpperCase qt) (room_or_empty ?s0 ?R) = TheSeat st"
      using TheSeat by (simp_all only: e e0)
    have f: "room_get (room_or_empty s ?R) st = None"
      by (cases st) (simp_all add: e empty_room_def)
    have f0: "room_get (room_or_empty ?s0 ?R) st = None"
      using e0 by (cases st) (simp_all add: empty_room_def)
    have eq: "join_with E w rt qt nt s = join_with E w rt qt nt ?s0"
      by (simp add: join_with_seat [OF rm a f] join_with_seat [OF rm a0 f0] Let_def e e0
          update_absent [OF new] update_appended [OF new] roster_messages_def sent_def
          seated_def)
    have rooms': "rooms (join_with E w rt qt nt s) =
        rooms s @ [(?R, room_set empty_room st
           (Some (seated E s w ?R st (display_name nt))))]"
      by (simp add: join_with_seat [OF rm a f] Let_def e update_absent [OF new])
    have rep: "reply s (join_with E w rt qt nt s) w =
        Some (Joined ?R (id_str (seated E s w ?R st (display_name nt))) (TheSeat st)
                (display_name nt))"
      by (rule reply_first [where rest = "roster_messages s ?R
            (room_set (room_or_empty s ?R) st
               (Some (seated E s w ?R st (display_name nt))))"])
         (simp add: join_with_seat [OF rm a f] Let_def sent_def op seated_def)
    show ?thesis
      using eq rooms' rep TheSeat by (simp add: has_def)
  qed
  show ?thesis
    unfolding on_message_join [OF jr]
    using main [THEN conjunct1, symmetric] main [THEN conjunct2]
    by (intro exI [of _ "join_with E w rt qt nt s"]) simp
qed

text \<open>
  Claim C8 fails on a request the handler cannot convert. No room \<open>attic\<close> is stored;
  connection 0 sends the frame
  \<^verbatim>\<open>{"type":"join","room":"attic","seat":"A","name":{"toString":1}}\<close>. The conversion of the
  name throws a TypeError before the handler reads the room table: no room is created and
  no seat is assigned.
\<close>

theorem unknown_room_join_throws:
  "map_of (rooms conn3) (js ''attic'') = None \<and> connected conn3 0 \<and>
   step E0 (Message 0 (Parsed (join_msg (js ''attic'') (JStr (js ''A'')) unconvertible))) conn3 =
     Inl TypeError"
proof -
  have a: "map_of (rooms conn3) (js ''attic'') = None"
    by (simp add: conn3_rooms)
  have c: "connected conn3 0"
    by (simp add: conn3_connected)
  have t: "on_message E0 0 (Parsed (join_msg (js ''attic'') (JStr (js ''A'')) unconvertible))
       conn3 = Inl TypeError"
    by (rule join_msg_throws) (simp add: String_or_empty_JStr String_or_empty_unconvertible)
  show ?thesis
    using a c t by (simp add: step_def)
qed

subsection \<open>The case of the requested seat\<close>








subsection \<open>The scheduler, step by step\<close>

lemma push_eq:
  "push p d s =
     s\<lparr>latestZones := (latestZones s)(d \<mapsto> p),
       ticking := insert d (ticking s),
       timers := (if d \<in> ticking s then timers s else timers s @ [(now s + 33, d)])\<rparr>"
  by (simp add: push_def scheduleFlush_def insert_absorb)

lemma on_zones_eq:
  assumes "me s w = Some m" "map_of (rooms s) (room m) = Some r"
  shows "on_zones w z q s =
         foldl (\<lambda>t x. push \<lparr>fromSeat = seat m, zones = z, seq = q\<rparr> x t) s
           (relay_targets r (seat m))"
  using assms
  by (simp add: on_zones_def Let_def relay_targets_def other_seat_def split: option.splits)

lemma on_zones_ignored: "me s w = None \<Longrightarrow> on_zones w z q s = s"
  by (simp add: on_zones_def)

lemma on_message_zones:
  "get_prop msg (js ''type'') = Some (JStr (js ''zones'')) \<Longrightarrow>
   on_message E w (Parsed msg) s =
     Inr (on_zones w (get_prop msg (js ''zones'')) (get_prop msg (js ''seq'')) s)"
  by (auto simp: on_message_def get_prop_def)

lemma get_prop_zones_msg:
  "get_prop (zones_msg z q) (js ''type'') = Some (JStr (js ''zones''))"
  "get_prop (zones_msg z q) (js ''zones'') = Some z"
  "get_prop (zones_msg z q) (js ''seq'') = Some q"
  by (simp_all add: zones_msg_def get_prop_def)

lemma foldl_push_latest:
  "latestZones (foldl (\<lambda>t x. push p x t) s xs) d =
     (if d \<in> set xs then Some p else latestZones s d)"
  by (induction xs arbitrary: s) (simp_all add: push_eq)

lemma foldl_push_ticking:
  "ticking (foldl (\<lambda>t x. push p x t) s xs) = ticking s \<union> set xs"
  by (induction xs arbitrary: s) (simp_all add: push_eq)

lemma foldl_push_timers:
  "filter (\<lambda>t. snd t = d) (timers (foldl (\<lambda>t x. push p x t) s xs)) =
     filter (\<lambda>t. snd t = d) (timers s) @
     (if d \<in> set xs \<and> d \<notin> ticking s then [(now s + 33, d)] else [])"
proof (induction xs arbitrary: s)
  case Nil
  show ?case by simp
next
  case (Cons x xs)
  have n: "now (push p x s) = now s" by (simp add: push_eq)
  show ?case
    by (simp add: Cons.IH n) (auto simp: push_eq)
qed

lemma foldl_push_rest:
  "rooms (foldl (\<lambda>t x. push p x t) s xs) = rooms s"
  "me (foldl (\<lambda>t x. push p x t) s xs) = me s"
  "outbox (foldl (\<lambda>t x. push p x t) s xs) = outbox s"
  "readyState (foldl (\<lambda>t x. push p x t) s xs) = readyState s"
  "bufferedAmount (foldl (\<lambda>t x. push p x t) s xs) = bufferedAmount s"
  "clients (foldl (\<lambda>t x. push p x t) s xs) = clients s"
  "now (foldl (\<lambda>t x. push p x t) s xs) = now s"
  by (induction xs arbitrary: s) (simp_all add: push_eq)

lemma foldl_push_hd_timer:
  "timers s \<noteq> [] \<Longrightarrow> hd (timers (foldl (\<lambda>t x. push p x t) s xs)) = hd (timers s) \<and>
     timers (foldl (\<lambda>t x. push p x t) s xs) \<noteq> []"
  by (induction xs arbitrary: s) (simp_all add: push_eq)












subsection \<open>Coalescing\<close>






lemma serialises_num:
  "serialises E0 (ZonesRelay \<lparr>fromSeat = st, zones = Some (num a), seq = Some (num b)\<rparr>)"
  by (simp add: too_deep_def num_def)


lemma not_serialises_deep:
  "\<not> serialises E0 (ZonesRelay \<lparr>fromSeat = st, zones = Some (deep 5000), seq = q\<rparr>)"
  by (simp add: too_deep_def nesting_deep E0_def)




subsection \<open>The flush\<close>







subsection \<open>Who may send zones\<close>

text \<open>
  Claim C6. The zones branch of the message handler runs only for a connection whose
  \<open>me\<close> is set, which a join to a seat does and a join as spectator does not: a zones
  message from a connection that has not joined, or has joined as spectator only, leaves
  the state as it is, so nothing is relayed. A zones message from a seated connection makes
  the handler push its payload, tagged with the sender's seat, to the other seat's occupant
  and to every spectator of the sender's room, in this order and to no one else: the
  payload is in the slot of each of them, each is marked for a flush and gets a timer
  unless it was marked already, no other slot is touched, and nothing is sent yet.
\<close>

theorem zones_acceptance:
  "(get_prop msg (js ''type'') = Some (JStr (js ''zones'')) \<and> me s w = None \<longrightarrow>
      on_message E w (Parsed msg) s = Inr s \<and>
      (connected s w \<longrightarrow> step E (Message w (Parsed msg)) s = Inr s)) \<and>
   me (on_connection E s) (n_connections s) = None \<and>
   (join_request E jmsg rt qt nt \<and> me s w = None \<and> trim rt \<noteq> [] \<and> readyState s w = OPEN \<and>
    assign_seat (toUpperCase qt) (room_or_empty s (trim rt)) = spectator \<longrightarrow>
      (\<exists>s'. on_message E w (Parsed jmsg) s = Inr s' \<and> me s' w = None)) \<and>
   (get_prop msg (js ''type'') = Some (JStr (js ''zones'')) \<and>
    me s w = Some m \<and> map_of (rooms s) (room m) = Some r \<longrightarrow>
      (\<exists>s'. on_message E w (Parsed msg) s = Inr s' \<and>
         s' = foldl (\<lambda>t x. push \<lparr>fromSeat = seat m, zones = get_prop msg (js ''zones''),
                                  seq = get_prop msg (js ''seq'')\<rparr> x t) s
                (relay_targets r (seat m)) \<and>
         (\<forall>d. latestZones s' d =
                (if d \<in> set (relay_targets r (seat m))
                 then Some \<lparr>fromSeat = seat m, zones = get_prop msg (js ''zones''),
                            seq = get_prop msg (js ''seq'')\<rparr>
                 else latestZones s d)) \<and>
         ticking s' = ticking s \<union> set (relay_targets r (seat m)) \<and>
         (\<forall>d. filter (\<lambda>t. snd t = d) (timers s') =
                filter (\<lambda>t. snd t = d) (timers s) @
                (if d \<in> set (relay_targets r (seat m)) \<and> d \<notin> ticking s
                 then [(now s + 33, d)] else [])) \<and>
         outbox s' = outbox s \<and> rooms s' = rooms s \<and> me s' = me s)) \<and>
   set (relay_targets r st) =
     {ws p |p. room_get r (other_seat st) = Some p} \<union>
     (case spectators r of None \<Rightarrow> {} | Some sp \<Rightarrow> set sp)"
proof (intro conjI impI)
  show "on_message E w (Parsed msg) s = Inr s"
    if "get_prop msg (js ''type'') = Some (JStr (js ''zones'')) \<and> me s w = None"
    using that by (simp add: on_message_zones on_zones_ignored)
  show "step E (Message w (Parsed msg)) s = Inr s"
    if "get_prop msg (js ''type'') = Some (JStr (js ''zones'')) \<and> me s w = None"
      and "connected s w"
    using that by (simp add: step_def on_message_zones on_zones_ignored)
  show "me (on_connection E s) (n_connections s) = None"
    by (simp add: on_connection_def Let_def send_eq)
  show "\<exists>s'. on_message E w (Parsed jmsg) s = Inr s' \<and> me s' w = None"
    if h: "join_request E jmsg rt qt nt \<and> me s w = None \<and> trim rt \<noteq> [] \<and>
      readyState s w = OPEN \<and>
      assign_seat (toUpperCase qt) (room_or_empty s (trim rt)) = spectator"
  proof -
    have jr: "join_request E jmsg rt qt nt"
      using h by simp
    have "me (join_with E w rt qt nt s) = me s"
      using h by (intro join_as_spectator(3)) simp_all
    then show ?thesis
      unfolding on_message_join [OF jr] using h by simp
  qed
  show "set (relay_targets r st) =
       {ws p |p. room_get r (other_seat st) = Some p} \<union>
       (case spectators r of None \<Rightarrow> {} | Some sp \<Rightarrow> set sp)"
    by (auto simp: relay_targets_def split: option.splits)
next
  assume h: "get_prop msg (js ''type'') = Some (JStr (js ''zones'')) \<and>
    me s w = Some m \<and> map_of (rooms s) (room m) = Some r"
  then have ty: "get_prop msg (js ''type'') = Some (JStr (js ''zones''))"
    and m: "me s w = Some m" and r: "map_of (rooms s) (room m) = Some r"
    by simp_all
  let ?p = "\<lparr>fromSeat = seat m, zones = get_prop msg (js ''zones''),
             seq = get_prop msg (js ''seq'')\<rparr>"
  let ?T = "relay_targets r (seat m)"
  define s' where "s' = foldl (\<lambda>t x. push ?p x t) s ?T"
  have 1: "on_message E w (Parsed msg) s = Inr s'"
    unfolding on_message_zones [OF ty] on_zones_eq [OF m r] s'_def by (rule refl)
  have 2: "\<forall>d. latestZones s' d = (if d \<in> set ?T then Some ?p else latestZones s d)"
    unfolding s'_def by (simp add: foldl_push_latest)
  have 3: "ticking s' = ticking s \<union> set ?T"
    unfolding s'_def by (rule foldl_push_ticking)
  have 4: "\<forall>d. filter (\<lambda>t. snd t = d) (timers s') =
                filter (\<lambda>t. snd t = d) (timers s) @
                (if d \<in> set ?T \<and> d \<notin> ticking s then [(now s + 33, d)] else [])"
    unfolding s'_def by (intro allI foldl_push_timers)
  have 5: "outbox s' = outbox s" "rooms s' = rooms s" "me s' = me s"
    unfolding s'_def by (simp_all add: foldl_push_rest)
  show "\<exists>s'. on_message E w (Parsed msg) s = Inr s' \<and>
         s' = foldl (\<lambda>t x. push ?p x t) s ?T \<and>
         (\<forall>d. latestZones s' d = (if d \<in> set ?T then Some ?p else latestZones s d)) \<and>
         ticking s' = ticking s \<union> set ?T \<and>
         (\<forall>d. filter (\<lambda>t. snd t = d) (timers s') =
                filter (\<lambda>t. snd t = d) (timers s) @
                (if d \<in> set ?T \<and> d \<notin> ticking s then [(now s + 33, d)] else [])) \<and>
         outbox s' = outbox s \<and> rooms s' = rooms s \<and> me s' = me s"
    using 1 2 3 4 5 s'_def by (intro exI [of _ s']) simp
qed

theorem zones_acceptance_witness:
  "get_prop (zones_msg (num ''5'') (num ''5'')) (js ''type'') = Some (JStr (js ''zones'')) \<and>
   me lobbyABS 2 = None \<and> connected lobbyABS 2 \<and>
   step E0 (Message 2 (Parsed (zones_msg (num ''5'') (num ''5'')))) lobbyABS = Inr lobbyABS \<and>
   me lobbyABS 0 = Some ann \<and>
   map_of (rooms lobbyABS) (room ann) = Some \<lparr>A = Some ann, B = Some bob, spectators = Some [2]\<rparr> \<and>
   (\<exists>s'. on_message E0 0 (Parsed (zones_msg (num ''5'') (num ''5''))) lobbyABS = Inr s' \<and>
      latestZones s' 0 = None \<and>
      latestZones s' 1 = Some \<lparr>fromSeat = Seat_A, zones = Some (num ''5''), seq = Some (num ''5'')\<rparr> \<and>
      latestZones s' 2 = Some \<lparr>fromSeat = Seat_A, zones = Some (num ''5''), seq = Some (num ''5'')\<rparr> \<and>
      ticking s' = {1, 2} \<and> outbox s' = outbox lobbyABS)"
proof -
  let ?msg = "zones_msg (num ''5'') (num ''5'')"
  let ?r = "\<lparr>A = Some ann, B = Some bob, spectators = Some [2]\<rparr>"
  have ty: "get_prop ?msg (js ''type'') = Some (JStr (js ''zones''))"
    by (simp add: get_prop_zones_msg)
  have n: "me lobbyABS 2 = None" and c: "connected lobbyABS 2"
    by (simp_all add: lobbyABS_facts)
  have h: "get_prop ?msg (js ''type'') = Some (JStr (js ''zones'')) \<and>
      me lobbyABS 0 = Some ann \<and> map_of (rooms lobbyABS) (room ann) = Some ?r"
    by (simp add: lobbyABS_facts ann_def get_prop_zones_msg)
  have sa: "seat ann = Seat_A"
    by (simp add: ann_def)
  have t: "relay_targets ?r Seat_A = [1, 2]"
    by (simp add: relay_targets_def other_seat_def bob_def)
  note T = zones_acceptance [where s = lobbyABS and E = E0 and msg = ?msg]
  have 1: "step E0 (Message 2 (Parsed ?msg)) lobbyABS = Inr lobbyABS"
    using T [where w = 2, THEN conjunct1] n c ty by simp
  from T [where w = 0 and m = ann and r = ?r,
      THEN conjunct2, THEN conjunct2, THEN conjunct2, THEN conjunct1, THEN mp, OF h]
  obtain s' where run: "on_message E0 0 (Parsed ?msg) lobbyABS = Inr s'"
    and lat: "\<And>d. latestZones s' d =
                (if d \<in> set (relay_targets ?r (seat ann))
                 then Some \<lparr>fromSeat = seat ann, zones = get_prop ?msg (js ''zones''),
                            seq = get_prop ?msg (js ''seq'')\<rparr>
                 else latestZones lobbyABS d)"
    and tick: "ticking s' = ticking lobbyABS \<union> set (relay_targets ?r (seat ann))"
    and out: "outbox s' = outbox lobbyABS"
    by blast
  have 2: "latestZones s' d =
      (if d \<in> {1, 2}
       then Some \<lparr>fromSeat = Seat_A, zones = Some (num ''5''), seq = Some (num ''5'')\<rparr>
       else None)" for d
    unfolding lat by (simp add: t lobbyABS_facts sa get_prop_zones_msg)
  have 3: "ticking s' = {1, 2}"
    unfolding tick by (simp add: t lobbyABS_facts sa)
  have "\<exists>s'. on_message E0 0 (Parsed ?msg) lobbyABS = Inr s' \<and>
      latestZones s' 0 = None \<and>
      latestZones s' 1 = Some \<lparr>fromSeat = Seat_A, zones = Some (num ''5''), seq = Some (num ''5'')\<rparr> \<and>
      latestZones s' 2 = Some \<lparr>fromSeat = Seat_A, zones = Some (num ''5''), seq = Some (num ''5'')\<rparr> \<and>
      ticking s' = {1, 2} \<and> outbox s' = outbox lobbyABS"
    using run 2 [of 0] 2 [of 1] 2 [of 2] 3 out by (intro exI [of _ s']) simp
  then show ?thesis
    using ty n c h 1 by simp
qed


subsection \<open>Creating rooms\<close>

lemma length_toString_hex: "length (toString_hex bs) = 2 * length bs"
  by (induction bs) (simp_all add: toString_hex_def)

lemma hex_digit_range: "hex_digit d \<in> set (js ''0123456789abcdef'')"
proof -
  have "d mod 16 < length (js ''0123456789abcdef'')" by (simp add: js_def)
  then show ?thesis unfolding hex_digit_def by (rule nth_mem)
qed

lemma set_toString_hex: "set (toString_hex bs) \<subseteq> set (js ''0123456789abcdef'')"
  unfolding toString_hex_def using hex_digit_range by (induction bs) auto

lemma sample_id_length: "length (sample_id E n) = 32"
  by (simp add: sample_id_def length_toString_hex randomBytes_def)

lemma sample_id_chars: "set (sample_id E n) \<subseteq> set (js ''0123456789abcdef'')"
  unfolding sample_id_def by (rule set_toString_hex)

lemma has_iff: "has rs k \<longleftrightarrow> k \<in> fst ` set rs"
  by (simp add: has_def map_of_eq_None_iff)

lemma gen_step:
  "generateUniqueRoomId E rs k =
     (if has rs (sample_id E k) then generateUniqueRoomId E rs (Suc k)
      else Some (sample_id E k, Suc k))"
  by (subst generateUniqueRoomId.simps) (simp add: sample_id_def Let_def)

lemma gen_from:
  assumes "\<not> has rs (sample_id E n)" "k \<le> n"
  shows "\<exists>j. k \<le> j \<and> j \<le> n \<and> \<not> has rs (sample_id E j) \<and>
             (\<forall>i. k \<le> i \<and> i < j \<longrightarrow> has rs (sample_id E i)) \<and>
             generateUniqueRoomId E rs k = Some (sample_id E j, Suc j)"
  using assms
proof (induction "n - k" arbitrary: k)
  case 0
  then have "k = n" by simp
  with 0 show ?case by (auto simp: gen_step [of E rs n])
next
  case (Suc d)
  show ?case
  proof (cases "has rs (sample_id E k)")
    case False
    with Suc.prems show ?thesis by (auto simp: gen_step [of E rs k])
  next
    case True
    from Suc have "d = n - Suc k" "Suc k \<le> n" by simp_all
    from Suc.hyps(1) [OF this(1) Suc.prems(1) this(2)]
    obtain j where j: "Suc k \<le> j" "j \<le> n" "\<not> has rs (sample_id E j)"
      "\<forall>i. Suc k \<le> i \<and> i < j \<longrightarrow> has rs (sample_id E i)"
      "generateUniqueRoomId E rs (Suc k) = Some (sample_id E j, Suc j)"
      by blast
    have "\<forall>i. k \<le> i \<and> i < j \<longrightarrow> has rs (sample_id E i)"
      using j(4) True by (metis Suc_leI le_neq_implies_less)
    moreover have "generateUniqueRoomId E rs k = Some (sample_id E j, Suc j)"
      using True j(5) by (simp add: gen_step [of E rs k])
    ultimately show ?thesis
      using j(1,2,3) by (intro exI [of _ j]) simp
  qed
qed

lemma on_create_eq:
  assumes "\<not> has (rooms s) (sample_id E n)" "n_randomBytes s \<le> n"
  shows "\<exists>j. n_randomBytes s \<le> j \<and> j \<le> n \<and> \<not> has (rooms s) (sample_id E j) \<and>
             (\<forall>i. n_randomBytes s \<le> i \<and> i < j \<longrightarrow> has (rooms s) (sample_id E i)) \<and>
             on_create E w s =
               Some (s\<lparr>rooms := rooms s @ [(sample_id E j, empty_room)],
                       outbox := outbox s @ sent s w (Created (sample_id E j)),
                       n_randomBytes := Suc j\<rparr>)"
proof -
  from gen_from [OF assms]
  obtain j where j: "n_randomBytes s \<le> j" "j \<le> n" "\<not> has (rooms s) (sample_id E j)"
    "\<forall>i. n_randomBytes s \<le> i \<and> i < j \<longrightarrow> has (rooms s) (sample_id E i)"
    "generateUniqueRoomId E (rooms s) (n_randomBytes s) = Some (sample_id E j, Suc j)"
    by blast
  have "map_of (rooms s) (sample_id E j) = None"
    using j(3) by (simp add: has_def)
  then have "on_create E w s =
               Some (s\<lparr>rooms := rooms s @ [(sample_id E j, empty_room)],
                       outbox := outbox s @ sent s w (Created (sample_id E j)),
                       n_randomBytes := Suc j\<rparr>)"
    by (simp add: on_create_def j(5) Let_def has_def update_absent send_eq sent_def)
  with j show ?thesis by blast
qed

lemma on_message_create:
  "get_prop msg (js ''type'') = Some (JStr (js ''create'')) \<Longrightarrow>
   on_message E w (Parsed msg) s =
     (case on_create E w s of None \<Rightarrow> Inl NoReturn | Some s' \<Rightarrow> Inr s')"
  by (auto simp: on_message_def get_prop_def)

lemma creates:
  assumes "connected s w" "finite F" "N \<le> card F"
    "F \<subseteq> sample_id E ` {n_randomBytes s..} - fst ` set (rooms s)"
    and ty: "get_prop msg (js ''type'') = Some (JStr (js ''create''))"
  shows "\<exists>s' ids. run E (replicate N (Message w (Parsed msg))) s = Inr s' \<and>
           length ids = N \<and> distinct ids \<and> set ids \<inter> fst ` set (rooms s) = {} \<and>
           rooms s' = rooms s @ map (\<lambda>i. (i, empty_room)) ids \<and>
           outbox s' = outbox s @ map (\<lambda>i. (w, Created i)) ids"
  using assms
proof (induction N arbitrary: s F)
  case 0
  show ?case by simp
next
  case (Suc N)
  let ?k = "n_randomBytes s"
  from Suc.prems(2,3) have "F \<noteq> {}" by auto
  then obtain f where f: "f \<in> F" by blast
  with Suc.prems(4) obtain n where n: "?k \<le> n" "f = sample_id E n" "f \<notin> fst ` set (rooms s)"
    by auto
  then have fresh: "\<not> has (rooms s) (sample_id E n)"
    by (simp add: has_iff)
  from on_create_eq [OF fresh n(1), of w]
  obtain j where j: "?k \<le> j" "\<not> has (rooms s) (sample_id E j)"
    "\<forall>i. ?k \<le> i \<and> i < j \<longrightarrow> has (rooms s) (sample_id E i)"
    "on_create E w s =
               Some (s\<lparr>rooms := rooms s @ [(sample_id E j, empty_room)],
                       outbox := outbox s @ sent s w (Created (sample_id E j)),
                       n_randomBytes := Suc j\<rparr>)"
    by blast
  let ?s1 = "s\<lparr>rooms := rooms s @ [(sample_id E j, empty_room)],
                       outbox := outbox s @ sent s w (Created (sample_id E j)),
                       n_randomBytes := Suc j\<rparr>"
  have st: "step E (Message w (Parsed msg)) s = Inr ?s1"
    using Suc.prems(1) by (simp add: step_def on_message_create [OF ty] j(4))
  have c1: "connected ?s1 w"
    using Suc.prems(1) by (simp add: connected_def)
  have fin: "finite (F - {sample_id E j})"
    using Suc.prems(2) by simp
  have card: "N \<le> card (F - {sample_id E j})"
  proof -
    have "card F - 1 \<le> card (F - {sample_id E j})"
      by (simp add: card_Diff_singleton_if)
    with Suc.prems(3) show ?thesis by linarith
  qed
  have sub: "F - {sample_id E j} \<subseteq> sample_id E ` {n_randomBytes ?s1..} - fst ` set (rooms ?s1)"
  proof
    fix g
    assume g: "g \<in> F - {sample_id E j}"
    with Suc.prems(4) obtain i where i: "?k \<le> i" "g = sample_id E i" "g \<notin> fst ` set (rooms s)"
      by auto
    have "\<not> has (rooms s) (sample_id E i)"
      using i by (simp add: has_iff)
    with j(3) i(1) have "\<not> i < j" by blast
    moreover have "i \<noteq> j" using g i(2) by auto
    ultimately have "Suc j \<le> i" by simp
    then show "g \<in> sample_id E ` {n_randomBytes ?s1..} - fst ` set (rooms ?s1)"
      using i g by auto
  qed
  from Suc.IH [OF c1 fin card sub ty]
  obtain s' ids where r: "run E (replicate N (Message w (Parsed msg))) ?s1 = Inr s'"
    "length ids = N" "distinct ids" "set ids \<inter> fst ` set (rooms ?s1) = {}"
    "rooms s' = rooms ?s1 @ map (\<lambda>i. (i, empty_room)) ids"
    "outbox s' = outbox ?s1 @ map (\<lambda>i. (w, Created i)) ids"
    by blast
  have o: "sent s w (Created (sample_id E j)) = [(w, Created (sample_id E j))]"
    using Suc.prems(1) by (simp add: sent_def connected_def)
  have "run E (replicate (Suc N) (Message w (Parsed msg))) s = Inr s'"
    by (simp add: st r(1))
  moreover have "length (sample_id E j # ids) = Suc N"
    by (simp add: r(2))
  moreover have "distinct (sample_id E j # ids)"
    using r(3,4) by auto
  moreover have "set (sample_id E j # ids) \<inter> fst ` set (rooms s) = {}"
    using r(4) j(2) by (auto simp: has_iff)
  moreover have "rooms s' = rooms s @ map (\<lambda>i. (i, empty_room)) (sample_id E j # ids)"
    by (simp add: r(5))
  moreover have "outbox s' = outbox s @ map (\<lambda>i. (w, Created i)) (sample_id E j # ids)"
    by (simp add: r(6) o)
  ultimately show ?case by blast
qed

lemma hex_digit_inj: "a < 16 \<Longrightarrow> b < 16 \<Longrightarrow> hex_digit a = hex_digit b \<Longrightarrow> a = b"
proof -
  assume a: "a < 16" and b: "b < 16" and e: "hex_digit a = hex_digit b"
  have d: "distinct (js ''0123456789abcdef'')" by (simp add: js_def)
  have "(js ''0123456789abcdef'') ! a = (js ''0123456789abcdef'') ! b"
    using e a b by (simp add: hex_digit_def)
  moreover have "length (js ''0123456789abcdef'') = 16"
    by (simp add: js_def)
  ultimately show "a = b"
    using d a b by (simp add: nth_eq_iff_index_eq)
qed

lemma hex_byte_inj:
  fixes b c :: "8 word"
  assumes "hex_digit (unat b div 16) = hex_digit (unat c div 16)"
    "hex_digit (unat b mod 16) = hex_digit (unat c mod 16)"
  shows "b = c"
proof -
  have lb: "unat b < 256" and lc: "unat c < 256"
    using unsigned_less [of b, where 'a = nat] unsigned_less [of c, where 'a = nat] by simp_all
  have "unat b div 16 = unat c div 16"
    using lb lc by (intro hex_digit_inj [OF _ _ assms(1)]) simp_all
  moreover have "unat b mod 16 = unat c mod 16"
    by (intro hex_digit_inj [OF _ _ assms(2)]) simp_all
  ultimately have "unat b = unat c"
    by (metis div_mult_mod_eq)
  then show ?thesis by (simp add: word_unat_eq_iff)
qed

lemma toString_hex_inj:
  "length bs = length cs \<Longrightarrow> toString_hex bs = toString_hex cs \<Longrightarrow> bs = cs"
proof (induction bs cs rule: list_induct2)
  case Nil
  show ?case by simp
next
  case (Cons b bs c cs)
  from Cons.prems have "hex_digit (unat b div 16) = hex_digit (unat c div 16)"
    "hex_digit (unat b mod 16) = hex_digit (unat c mod 16)"
    "toString_hex bs = toString_hex cs"
    by (simp_all add: toString_hex_def)
  then show ?case
    using Cons.IH hex_byte_inj by simp
qed

lemma sample_id_E0:
  "sample_id E0 0 = (js ''000102030405060708090a0b0c0d0e0f'')"
  "sample_id E0 (Suc 0) = (js ''101112131415161718191a1b1c1d1e1f'')"
  by (simp_all add: sample_id_def E0_def randomBytes_def toString_hex_def hex_digit_def upt_rec
      js_def)

text \<open>
  Claim C7. The loop of \<open>generateUniqueRoomId\<close> draws 16 random bytes at a time and
  returns the first draw whose hexadecimal text is not a key of the room table; the
  create handler stores an empty room under it, at the end of the table, and answers
  \<open>created\<close> with it. Every draw is a text of 32 characters among 0-9 and a-f that
  determines its 16 bytes. The handler has no error result; it returns provided the
  random source yields an unused id at some draw, and the loop does not end otherwise.
  When the source yields at least \<open>N\<close> different unused ids, \<open>N\<close> create requests in a
  row are answered with \<open>N\<close> ids that are pairwise different and were not in use.
\<close>

theorem createRoom_fresh:
  "((\<exists>n \<ge> n_randomBytes s. \<not> has (rooms s) (sample_id E n)) \<longrightarrow>
        (\<exists>j. n_randomBytes s \<le> j \<and> \<not> has (rooms s) (sample_id E j) \<and>
             (\<forall>i. n_randomBytes s \<le> i \<and> i < j \<longrightarrow> has (rooms s) (sample_id E i)) \<and>
             on_create E w s =
               Some (s\<lparr>rooms := rooms s @ [(sample_id E j, empty_room)],
                       outbox := outbox s @ sent s w (Created (sample_id E j)),
                       n_randomBytes := Suc j\<rparr>))) \<and>
     length (sample_id E n) = 32 \<and> set (sample_id E n) \<subseteq> set (js ''0123456789abcdef'') \<and>
     (sample_id E n = sample_id E n' \<longrightarrow> randomBytes E n 16 = randomBytes E n' 16) \<and>
     (get_prop msg (js ''type'') = Some (JStr (js ''create'')) \<and>
      connected s w \<and> finite F \<and> N \<le> card F \<and>
      F \<subseteq> sample_id E ` {n_randomBytes s..} - fst ` set (rooms s) \<longrightarrow>
        (\<exists>s' ids. run E (replicate N (Message w (Parsed msg))) s = Inr s' \<and>
                  length ids = N \<and> distinct ids \<and> set ids \<inter> fst ` set (rooms s) = {} \<and>
                  rooms s' = rooms s @ map (\<lambda>i. (i, empty_room)) ids \<and>
                  outbox s' = outbox s @ map (\<lambda>i. (w, Created i)) ids))"
proof (intro conjI impI)
  assume "\<exists>n \<ge> n_randomBytes s. \<not> has (rooms s) (sample_id E n)"
  then obtain n where n: "n_randomBytes s \<le> n" "\<not> has (rooms s) (sample_id E n)"
    by blast
  from on_create_eq [OF n(2) n(1), of w]
  show "\<exists>j. n_randomBytes s \<le> j \<and> \<not> has (rooms s) (sample_id E j) \<and>
             (\<forall>i. n_randomBytes s \<le> i \<and> i < j \<longrightarrow> has (rooms s) (sample_id E i)) \<and>
             on_create E w s =
               Some (s\<lparr>rooms := rooms s @ [(sample_id E j, empty_room)],
                       outbox := outbox s @ sent s w (Created (sample_id E j)),
                       n_randomBytes := Suc j\<rparr>)"
    by blast
next
  show "length (sample_id E n) = 32"
    by (rule sample_id_length)
  show "set (sample_id E n) \<subseteq> set (js ''0123456789abcdef'')"
    by (rule sample_id_chars)
  show "randomBytes E n 16 = randomBytes E n' 16" if "sample_id E n = sample_id E n'"
    using that unfolding sample_id_def
    by (intro toString_hex_inj) (simp_all add: randomBytes_def)
next
  assume h: "get_prop msg (js ''type'') = Some (JStr (js ''create'')) \<and>
      connected s w \<and> finite F \<and> N \<le> card F \<and>
      F \<subseteq> sample_id E ` {n_randomBytes s..} - fst ` set (rooms s)"
  then have ty: "get_prop msg (js ''type'') = Some (JStr (js ''create''))"
    and c: "connected s w" and f: "finite F" and n: "N \<le> card F"
    and sub: "F \<subseteq> sample_id E ` {n_randomBytes s..} - fst ` set (rooms s)"
    by simp_all
  show "\<exists>s' ids. run E (replicate N (Message w (Parsed msg))) s = Inr s' \<and>
                  length ids = N \<and> distinct ids \<and> set ids \<inter> fst ` set (rooms s) = {} \<and>
                  rooms s' = rooms s @ map (\<lambda>i. (i, empty_room)) ids \<and>
                  outbox s' = outbox s @ map (\<lambda>i. (w, Created i)) ids"
    by (rule creates [OF c f n sub ty])
qed

theorem createRoom_fresh_witness:
  "(\<exists>n \<ge> n_randomBytes taken. \<not> has (rooms taken) (sample_id E0 n)) \<and>
   has (rooms taken) (sample_id E0 0) \<and>
   (\<exists>j. on_create E0 0 taken =
      Some (taken\<lparr>rooms := rooms taken @ [(sample_id E0 j, empty_room)],
                  outbox := outbox taken @ sent taken 0 (Created (sample_id E0 j)),
                  n_randomBytes := Suc j\<rparr>)) \<and>
   get_prop create_msg (js ''type'') = Some (JStr (js ''create'')) \<and>
   connected conn3 0 \<and> finite {sample_id E0 0, sample_id E0 1} \<and>
   2 \<le> card {sample_id E0 0, sample_id E0 1} \<and>
   {sample_id E0 0, sample_id E0 1} \<subseteq>
     sample_id E0 ` {n_randomBytes conn3..} - fst ` set (rooms conn3) \<and>
   (\<exists>s' ids. run E0 (replicate 2 (Message 0 (Parsed create_msg))) conn3 = Inr s' \<and>
             length ids = 2 \<and> distinct ids \<and>
             outbox s' = outbox conn3 @ map (\<lambda>i. (0, Created i)) ids)"
proof -
  have t: "rooms taken = [((js ''000102030405060708090a0b0c0d0e0f''), empty_room)]"
    "n_randomBytes taken = 0"
    by (simp_all add: taken_def conn3_eq init_def)
  have e: "\<exists>n \<ge> n_randomBytes taken. \<not> has (rooms taken) (sample_id E0 n)"
    by (rule exI [of _ "Suc 0"]) (simp add: t has_def sample_id_E0)
  have h0: "has (rooms taken) (sample_id E0 0)"
    by (simp add: t has_def sample_id_E0)
  have c: "connected conn3 0"
    by (simp add: connected_def conn3_eq)
  have ty: "get_prop create_msg (js ''type'') = Some (JStr (js ''create''))"
    by (simp add: create_msg_def get_prop_def)
  have F: "finite {sample_id E0 0, sample_id E0 1}"
    "2 \<le> card {sample_id E0 0, sample_id E0 1}"
    "{sample_id E0 0, sample_id E0 1} \<subseteq>
       sample_id E0 ` {n_randomBytes conn3..} - fst ` set (rooms conn3)"
  proof -
    show "finite {sample_id E0 0, sample_id E0 1}"
      by simp
    show "2 \<le> card {sample_id E0 0, sample_id E0 1}"
      by (simp add: sample_id_E0)
    have "sample_id E0 n \<in> sample_id E0 ` {n_randomBytes conn3..}" for n
      by (rule imageI) (simp add: conn3_eq init_def)
    then show "{sample_id E0 0, sample_id E0 1} \<subseteq>
       sample_id E0 ` {n_randomBytes conn3..} - fst ` set (rooms conn3)"
      by (simp add: conn3_rooms)
  qed
  have 1: "\<exists>j. on_create E0 0 taken =
      Some (taken\<lparr>rooms := rooms taken @ [(sample_id E0 j, empty_room)],
                  outbox := outbox taken @ sent taken 0 (Created (sample_id E0 j)),
                  n_randomBytes := Suc j\<rparr>)"
    using createRoom_fresh [where s = taken and E = E0 and w = 0, THEN conjunct1, THEN mp, OF e]
    by blast
  have 2: "\<exists>s' ids. run E0 (replicate 2 (Message 0 (Parsed create_msg))) conn3 = Inr s' \<and>
             length ids = 2 \<and> distinct ids \<and>
             outbox s' = outbox conn3 @ map (\<lambda>i. (0, Created i)) ids"
    using createRoom_fresh [where s = conn3 and E = E0 and w = 0 and N = 2
        and msg = create_msg
        and F = "{sample_id E0 0, sample_id E0 1}", THEN conjunct2, THEN conjunct2,
        THEN conjunct2, THEN conjunct2] c F ty
    by blast
  show ?thesis
    using e h0 c F ty 1 2 by blast
qed

end
